theory Spec2Isabelle
  imports Complex_Main
begin

section \<open>Evaluation of finite element shape functions: \<open>fe_values.h\<close>\<close>

text \<open>
  This theory embeds the inline accessors of \<open>include/deal.II/fe/fe_values.h\<close>:
  the whole-element accessors of \<open>FEValuesBase\<close> and the accessors of the four
  component views of namespace \<open>FEValuesViews\<close> (\<open>Scalar\<close>, \<open>Vector\<close>,
  \<open>SymmetricTensor<2>\<close>, \<open>Tensor<2>\<close>).

  Conventions of the embedding.
  \<^item> The template parameters \<open>dim\<close> and \<open>spacedim\<close> are explicit arguments of the
    functions that use them; \<open>dim\<close> is written \<open>dim'\<close>. The library instantiates
    the classes for \<open>1 \<le> dim \<le> spacedim \<le> 3\<close>.
  \<^item> \<open>double\<close> is modelled by \<open>real\<close>: the properties below are algebraic
    identities; rounding, signed zeros and NaN are not modelled.
  \<^item> \<open>Assert\<close> and \<open>AssertIndexRange\<close> are taken in debug mode, where a failed
    condition raises the exception; an accessor returns \<open>Inl e\<close> for the first
    exception \<open>e\<close> it raises and \<open>Inr v\<close> for the value \<open>v\<close> it returns.
  \<^item> A \<open>Tensor<1,n>\<close> is a list of \<open>n\<close> numbers, a \<open>Tensor<k+1,n>\<close> a list of
    \<open>n\<close> tensors of rank \<open>k\<close>; a default constructed tensor is all zero. Reading
    and writing an entry are \<open>t ! i\<close> and \<open>t [i := x]\<close>; the properties are stated for
    indices inside the tensor.
\<close>

subsection \<open>Exceptions and assertions\<close>

datatype ExceptionBase =
    ExcIndexRange nat nat nat
  | ExcAccessToUninitializedField string
  | ExcShapeFunctionNotPrimitive nat
  | ExcNotReinited
  | ExcNotImplemented
  | ExcMessage string
  | ExcInternalError

text \<open>
  \<open>Assert(cond, exc); rest\<close> and \<open>AssertIndexRange(index, range); rest\<close>, the
  second being \<open>Assert(index < range, ExcIndexRange(index, 0, range))\<close>.
\<close>

definition Assert :: "bool \<Rightarrow> ExceptionBase \<Rightarrow> ExceptionBase + 'a \<Rightarrow> ExceptionBase + 'a" where
  "Assert cond exc rest = (if cond then rest else Inl exc)"

definition AssertIndexRange :: "nat \<Rightarrow> nat \<Rightarrow> ExceptionBase + 'a \<Rightarrow> ExceptionBase + 'a" where
  "AssertIndexRange index n rest = Assert (index < n) (ExcIndexRange index 0 n) rest"

subsection \<open>Update flags\<close>

text \<open>
  The enumeration \<open>UpdateFlags\<close> of \<open>fe_update_flags.h\<close> is a bit mask with one
  bit per flag named below; a value of the mask is the set of its bits, and the test
  \<open>update_flags & update_values\<close> is membership.
\<close>

datatype UpdateFlag =
    update_values
  | update_gradients
  | update_hessians
  | update_3rd_derivatives
  | update_boundary_forms
  | update_quadrature_points
  | update_JxW_values
  | update_normal_vectors
  | update_jacobians
  | update_jacobian_grads
  | update_inverse_jacobians
  | update_jacobian_pushed_forward_grads
  | update_jacobian_2nd_derivatives
  | update_jacobian_pushed_forward_2nd_derivatives
  | update_jacobian_3rd_derivatives
  | update_jacobian_pushed_forward_3rd_derivatives

type_synonym UpdateFlags = "UpdateFlag set"

subsection \<open>Tensors\<close>

type_synonym Tensor1 = "real list"
type_synonym Tensor2 = "real list list"
type_synonym Tensor3 = "real list list list"
type_synonym Tensor4 = "real list list list list"
type_synonym Tensor5 = "real list list list list list"

definition Tensor1_zero :: "nat \<Rightarrow> Tensor1" where
  "Tensor1_zero n = replicate n 0"

definition Tensor2_zero :: "nat \<Rightarrow> Tensor2" where
  "Tensor2_zero n = replicate n (Tensor1_zero n)"

definition Tensor3_zero :: "nat \<Rightarrow> Tensor3" where
  "Tensor3_zero n = replicate n (Tensor2_zero n)"

definition Tensor4_zero :: "nat \<Rightarrow> Tensor4" where
  "Tensor4_zero n = replicate n (Tensor3_zero n)"

subsection \<open>The finite element\<close>

text \<open>
  Modelled from the spec: the class \<open>FiniteElement\<close> (\<open>fe.h\<close>) is used by the
  accessors but declared elsewhere. The record holds what the accessors read: the number
  of shape functions per cell, the number of vector components, for each shape function
  the mask of its structurally nonzero components, and \<open>system_to_component_index\<close>.
  A shape function is primitive when exactly one of its components is structurally
  nonzero; the element is primitive when every shape function is.
\<close>

record FiniteElement =
  n_dofs_per_cell :: nat
  n_components :: nat
  get_nonzero_components :: "nat \<Rightarrow> bool list"
  system_to_component_index :: "nat \<Rightarrow> nat \<times> nat"

definition n_nonzero_components :: "FiniteElement \<Rightarrow> nat \<Rightarrow> nat" where
  "n_nonzero_components el i = length (filter (\<lambda>b. b) (get_nonzero_components el i))"

definition is_primitive_shape_function :: "FiniteElement \<Rightarrow> nat \<Rightarrow> bool" where
  "is_primitive_shape_function el i = (n_nonzero_components el i = 1)"

definition is_primitive :: "FiniteElement \<Rightarrow> bool" where
  "is_primitive el = list_all (is_primitive_shape_function el) [0..<n_dofs_per_cell el]"

subsection \<open>The evaluation caches\<close>

text \<open>
  \<open>FiniteElementRelatedData\<close> and \<open>MappingRelatedData\<close> are declared in other
  headers. The tables of shape function data are read at (row, quadrature point), so
  they are functions of these two indices; \<open>shape_function_to_row_table\<close> and the
  per-point arrays of the mapping are vectors.
\<close>

record FiniteElementRelatedData =
  shape_values :: "nat \<Rightarrow> nat \<Rightarrow> real"
  shape_gradients :: "nat \<Rightarrow> nat \<Rightarrow> Tensor1"
  shape_hessians :: "nat \<Rightarrow> nat \<Rightarrow> Tensor2"
  shape_3rd_derivatives :: "nat \<Rightarrow> nat \<Rightarrow> Tensor3"
  shape_function_to_row_table :: "nat list"

record MappingRelatedData =
  quadrature_points :: "Tensor1 list"
  JxW_values :: "real list"
  jacobians :: "Tensor2 list"
  jacobian_grads :: "Tensor3 list"
  jacobian_pushed_forward_grads :: "Tensor3 list"
  jacobian_2nd_derivatives :: "Tensor4 list"
  jacobian_pushed_forward_2nd_derivatives :: "Tensor4 list"
  jacobian_3rd_derivatives :: "Tensor5 list"
  jacobian_pushed_forward_3rd_derivatives :: "Tensor5 list"
  inverse_jacobians :: "Tensor2 list"
  normal_vectors :: "Tensor1 list"
  boundary_forms :: "Tensor1 list"

text \<open>
  \<open>CellIteratorContainer\<close>: only the flag set by its constructors from a cell is
  kept; \<open>is_initialized()\<close> returns it.
\<close>

record CellIteratorContainer =
  initialized :: bool

definition is_initialized :: "CellIteratorContainer \<Rightarrow> bool" where
  "is_initialized c = initialized c"

record FEValuesBase =
  fe :: FiniteElement
  update_flags :: UpdateFlags
  present_cell :: CellIteratorContainer
  mapping_output :: MappingRelatedData
  finite_element_output :: FiniteElementRelatedData

subsection \<open>Whole-element accessors of \<open>FEValuesBase\<close>\<close>

definition shape_value :: "FEValuesBase \<Rightarrow> nat \<Rightarrow> nat \<Rightarrow> ExceptionBase + real" where
  "shape_value this i j =
     AssertIndexRange i (n_dofs_per_cell (fe this))
    (Assert (update_values \<in> update_flags this) (ExcAccessToUninitializedField ''update_values'')
    (Assert (is_primitive_shape_function (fe this) i) (ExcShapeFunctionNotPrimitive i)
    (Assert (is_initialized (present_cell this)) ExcNotReinited
      (if is_primitive (fe this)
       then Inr (shape_values (finite_element_output this) i j)
       else
         (let row = shape_function_to_row_table (finite_element_output this)
                      ! (i * n_components (fe this) + fst (system_to_component_index (fe this) i))
          in Inr (shape_values (finite_element_output this) row j))))))"

definition shape_value_component ::
  "FEValuesBase \<Rightarrow> nat \<Rightarrow> nat \<Rightarrow> nat \<Rightarrow> ExceptionBase + real" where
  "shape_value_component this i j component =
     AssertIndexRange i (n_dofs_per_cell (fe this))
    (Assert (update_values \<in> update_flags this) (ExcAccessToUninitializedField ''update_values'')
    (AssertIndexRange component (n_components (fe this))
    (Assert (is_initialized (present_cell this)) ExcNotReinited
      (if get_nonzero_components (fe this) i ! component = False
       then Inr 0
       else
         (let row = shape_function_to_row_table (finite_element_output this)
                      ! (i * n_components (fe this) + component)
          in Inr (shape_values (finite_element_output this) row j))))))"

definition shape_grad :: "FEValuesBase \<Rightarrow> nat \<Rightarrow> nat \<Rightarrow> ExceptionBase + Tensor1" where
  "shape_grad this i j =
     AssertIndexRange i (n_dofs_per_cell (fe this))
    (Assert (update_gradients \<in> update_flags this) (ExcAccessToUninitializedField ''update_gradients'')
    (Assert (is_primitive_shape_function (fe this) i) (ExcShapeFunctionNotPrimitive i)
    (Assert (is_initialized (present_cell this)) ExcNotReinited
      (if is_primitive (fe this)
       then Inr (shape_gradients (finite_element_output this) i j)
       else
         (let row = shape_function_to_row_table (finite_element_output this)
                      ! (i * n_components (fe this) + fst (system_to_component_index (fe this) i))
          in Inr (shape_gradients (finite_element_output this) row j))))))"

definition shape_grad_component ::
  "nat \<Rightarrow> FEValuesBase \<Rightarrow> nat \<Rightarrow> nat \<Rightarrow> nat \<Rightarrow> ExceptionBase + Tensor1" where
  "shape_grad_component spacedim this i j component =
     AssertIndexRange i (n_dofs_per_cell (fe this))
    (Assert (update_gradients \<in> update_flags this) (ExcAccessToUninitializedField ''update_gradients'')
    (AssertIndexRange component (n_components (fe this))
    (Assert (is_initialized (present_cell this)) ExcNotReinited
      (if get_nonzero_components (fe this) i ! component = False
       then Inr (Tensor1_zero spacedim)
       else
         (let row = shape_function_to_row_table (finite_element_output this)
                      ! (i * n_components (fe this) + component)
          in Inr (shape_gradients (finite_element_output this) row j))))))"

definition shape_hessian :: "FEValuesBase \<Rightarrow> nat \<Rightarrow> nat \<Rightarrow> ExceptionBase + Tensor2" where
  "shape_hessian this i j =
     AssertIndexRange i (n_dofs_per_cell (fe this))
    (Assert (update_hessians \<in> update_flags this) (ExcAccessToUninitializedField ''update_hessians'')
    (Assert (is_primitive_shape_function (fe this) i) (ExcShapeFunctionNotPrimitive i)
    (Assert (is_initialized (present_cell this)) ExcNotReinited
      (if is_primitive (fe this)
       then Inr (shape_hessians (finite_element_output this) i j)
       else
         (let row = shape_function_to_row_table (finite_element_output this)
                      ! (i * n_components (fe this) + fst (system_to_component_index (fe this) i))
          in Inr (shape_hessians (finite_element_output this) row j))))))"

definition shape_hessian_component ::
  "nat \<Rightarrow> FEValuesBase \<Rightarrow> nat \<Rightarrow> nat \<Rightarrow> nat \<Rightarrow> ExceptionBase + Tensor2" where
  "shape_hessian_component spacedim this i j component =
     AssertIndexRange i (n_dofs_per_cell (fe this))
    (Assert (update_hessians \<in> update_flags this) (ExcAccessToUninitializedField ''update_hessians'')
    (AssertIndexRange component (n_components (fe this))
    (Assert (is_initialized (present_cell this)) ExcNotReinited
      (if get_nonzero_components (fe this) i ! component = False
       then Inr (Tensor2_zero spacedim)
       else
         (let row = shape_function_to_row_table (finite_element_output this)
                      ! (i * n_components (fe this) + component)
          in Inr (shape_hessians (finite_element_output this) row j))))))"

definition shape_3rd_derivative :: "FEValuesBase \<Rightarrow> nat \<Rightarrow> nat \<Rightarrow> ExceptionBase + Tensor3" where
  "shape_3rd_derivative this i j =
     AssertIndexRange i (n_dofs_per_cell (fe this))
    (Assert (update_3rd_derivatives \<in> update_flags this) (ExcAccessToUninitializedField ''update_3rd_derivatives'')
    (Assert (is_primitive_shape_function (fe this) i) (ExcShapeFunctionNotPrimitive i)
    (Assert (is_initialized (present_cell this)) ExcNotReinited
      (if is_primitive (fe this)
       then Inr (shape_3rd_derivatives (finite_element_output this) i j)
       else
         (let row = shape_function_to_row_table (finite_element_output this)
                      ! (i * n_components (fe this) + fst (system_to_component_index (fe this) i))
          in Inr (shape_3rd_derivatives (finite_element_output this) row j))))))"

definition shape_3rd_derivative_component ::
  "nat \<Rightarrow> FEValuesBase \<Rightarrow> nat \<Rightarrow> nat \<Rightarrow> nat \<Rightarrow> ExceptionBase + Tensor3" where
  "shape_3rd_derivative_component spacedim this i j component =
     AssertIndexRange i (n_dofs_per_cell (fe this))
    (Assert (update_3rd_derivatives \<in> update_flags this) (ExcAccessToUninitializedField ''update_3rd_derivatives'')
    (AssertIndexRange component (n_components (fe this))
    (Assert (is_initialized (present_cell this)) ExcNotReinited
      (if get_nonzero_components (fe this) i ! component = False
       then Inr (Tensor3_zero spacedim)
       else
         (let row = shape_function_to_row_table (finite_element_output this)
                      ! (i * n_components (fe this) + component)
          in Inr (shape_3rd_derivatives (finite_element_output this) row j))))))"

text \<open>
  The accessors of the mapping data. Those returning a whole array, and the accessors
  of the higher Jacobian derivatives at one point, check the flag and the cell; the
  other accessors at one point check the index as well. \<open>boundary_form\<close> (of
  \<open>FEFaceValuesBase\<close>) checks the index first and does not look at the cell.
\<close>

definition get_quadrature_points :: "FEValuesBase \<Rightarrow> ExceptionBase + Tensor1 list" where
  "get_quadrature_points this =
     Assert (update_quadrature_points \<in> update_flags this) (ExcAccessToUninitializedField ''update_quadrature_points'')
    (Assert (is_initialized (present_cell this)) ExcNotReinited
      (Inr (quadrature_points (mapping_output this))))"

definition get_JxW_values :: "FEValuesBase \<Rightarrow> ExceptionBase + real list" where
  "get_JxW_values this =
     Assert (update_JxW_values \<in> update_flags this) (ExcAccessToUninitializedField ''update_JxW_values'')
    (Assert (is_initialized (present_cell this)) ExcNotReinited
      (Inr (JxW_values (mapping_output this))))"

definition get_jacobians :: "FEValuesBase \<Rightarrow> ExceptionBase + Tensor2 list" where
  "get_jacobians this =
     Assert (update_jacobians \<in> update_flags this) (ExcAccessToUninitializedField ''update_jacobians'')
    (Assert (is_initialized (present_cell this)) ExcNotReinited
      (Inr (jacobians (mapping_output this))))"

definition get_jacobian_grads :: "FEValuesBase \<Rightarrow> ExceptionBase + Tensor3 list" where
  "get_jacobian_grads this =
     Assert (update_jacobian_grads \<in> update_flags this) (ExcAccessToUninitializedField ''update_jacobians_grads'')
    (Assert (is_initialized (present_cell this)) ExcNotReinited
      (Inr (jacobian_grads (mapping_output this))))"

definition jacobian_pushed_forward_grad :: "FEValuesBase \<Rightarrow> nat \<Rightarrow> ExceptionBase + Tensor3" where
  "jacobian_pushed_forward_grad this i =
     Assert (update_jacobian_pushed_forward_grads \<in> update_flags this) (ExcAccessToUninitializedField ''update_jacobian_pushed_forward_grads'')
    (Assert (is_initialized (present_cell this)) ExcNotReinited
      (Inr (jacobian_pushed_forward_grads (mapping_output this) ! i)))"

definition get_jacobian_pushed_forward_grads :: "FEValuesBase \<Rightarrow> ExceptionBase + Tensor3 list" where
  "get_jacobian_pushed_forward_grads this =
     Assert (update_jacobian_pushed_forward_grads \<in> update_flags this) (ExcAccessToUninitializedField ''update_jacobian_pushed_forward_grads'')
    (Assert (is_initialized (present_cell this)) ExcNotReinited
      (Inr (jacobian_pushed_forward_grads (mapping_output this))))"

definition jacobian_2nd_derivative :: "FEValuesBase \<Rightarrow> nat \<Rightarrow> ExceptionBase + Tensor4" where
  "jacobian_2nd_derivative this i =
     Assert (update_jacobian_2nd_derivatives \<in> update_flags this) (ExcAccessToUninitializedField ''update_jacobian_2nd_derivatives'')
    (Assert (is_initialized (present_cell this)) ExcNotReinited
      (Inr (jacobian_2nd_derivatives (mapping_output this) ! i)))"

definition get_jacobian_2nd_derivatives :: "FEValuesBase \<Rightarrow> ExceptionBase + Tensor4 list" where
  "get_jacobian_2nd_derivatives this =
     Assert (update_jacobian_2nd_derivatives \<in> update_flags this) (ExcAccessToUninitializedField ''update_jacobian_2nd_derivatives'')
    (Assert (is_initialized (present_cell this)) ExcNotReinited
      (Inr (jacobian_2nd_derivatives (mapping_output this))))"

definition jacobian_pushed_forward_2nd_derivative :: "FEValuesBase \<Rightarrow> nat \<Rightarrow> ExceptionBase + Tensor4" where
  "jacobian_pushed_forward_2nd_derivative this i =
     Assert (update_jacobian_pushed_forward_2nd_derivatives \<in> update_flags this) (ExcAccessToUninitializedField ''update_jacobian_pushed_forward_2nd_derivatives'')
    (Assert (is_initialized (present_cell this)) ExcNotReinited
      (Inr (jacobian_pushed_forward_2nd_derivatives (mapping_output this) ! i)))"

definition get_jacobian_pushed_forward_2nd_derivatives :: "FEValuesBase \<Rightarrow> ExceptionBase + Tensor4 list" where
  "get_jacobian_pushed_forward_2nd_derivatives this =
     Assert (update_jacobian_pushed_forward_2nd_derivatives \<in> update_flags this) (ExcAccessToUninitializedField ''update_jacobian_pushed_forward_2nd_derivatives'')
    (Assert (is_initialized (present_cell this)) ExcNotReinited
      (Inr (jacobian_pushed_forward_2nd_derivatives (mapping_output this))))"

definition jacobian_3rd_derivative :: "FEValuesBase \<Rightarrow> nat \<Rightarrow> ExceptionBase + Tensor5" where
  "jacobian_3rd_derivative this i =
     Assert (update_jacobian_3rd_derivatives \<in> update_flags this) (ExcAccessToUninitializedField ''update_jacobian_3rd_derivatives'')
    (Assert (is_initialized (present_cell this)) ExcNotReinited
      (Inr (jacobian_3rd_derivatives (mapping_output this) ! i)))"

definition get_jacobian_3rd_derivatives :: "FEValuesBase \<Rightarrow> ExceptionBase + Tensor5 list" where
  "get_jacobian_3rd_derivatives this =
     Assert (update_jacobian_3rd_derivatives \<in> update_flags this) (ExcAccessToUninitializedField ''update_jacobian_3rd_derivatives'')
    (Assert (is_initialized (present_cell this)) ExcNotReinited
      (Inr (jacobian_3rd_derivatives (mapping_output this))))"

definition jacobian_pushed_forward_3rd_derivative :: "FEValuesBase \<Rightarrow> nat \<Rightarrow> ExceptionBase + Tensor5" where
  "jacobian_pushed_forward_3rd_derivative this i =
     Assert (update_jacobian_pushed_forward_3rd_derivatives \<in> update_flags this) (ExcAccessToUninitializedField ''update_jacobian_pushed_forward_3rd_derivatives'')
    (Assert (is_initialized (present_cell this)) ExcNotReinited
      (Inr (jacobian_pushed_forward_3rd_derivatives (mapping_output this) ! i)))"

definition get_jacobian_pushed_forward_3rd_derivatives :: "FEValuesBase \<Rightarrow> ExceptionBase + Tensor5 list" where
  "get_jacobian_pushed_forward_3rd_derivatives this =
     Assert (update_jacobian_pushed_forward_3rd_derivatives \<in> update_flags this) (ExcAccessToUninitializedField ''update_jacobian_pushed_forward_3rd_derivatives'')
    (Assert (is_initialized (present_cell this)) ExcNotReinited
      (Inr (jacobian_pushed_forward_3rd_derivatives (mapping_output this))))"

definition get_inverse_jacobians :: "FEValuesBase \<Rightarrow> ExceptionBase + Tensor2 list" where
  "get_inverse_jacobians this =
     Assert (update_inverse_jacobians \<in> update_flags this) (ExcAccessToUninitializedField ''update_inverse_jacobians'')
    (Assert (is_initialized (present_cell this)) ExcNotReinited
      (Inr (inverse_jacobians (mapping_output this))))"

definition quadrature_point :: "FEValuesBase \<Rightarrow> nat \<Rightarrow> ExceptionBase + Tensor1" where
  "quadrature_point this i =
     Assert (update_quadrature_points \<in> update_flags this) (ExcAccessToUninitializedField ''update_quadrature_points'')
    (AssertIndexRange i (length (quadrature_points (mapping_output this)))
    (Assert (is_initialized (present_cell this)) ExcNotReinited
      (Inr (quadrature_points (mapping_output this) ! i))))"

definition JxW :: "FEValuesBase \<Rightarrow> nat \<Rightarrow> ExceptionBase + real" where
  "JxW this i =
     Assert (update_JxW_values \<in> update_flags this) (ExcAccessToUninitializedField ''update_JxW_values'')
    (AssertIndexRange i (length (JxW_values (mapping_output this)))
    (Assert (is_initialized (present_cell this)) ExcNotReinited
      (Inr (JxW_values (mapping_output this) ! i))))"

definition jacobian :: "FEValuesBase \<Rightarrow> nat \<Rightarrow> ExceptionBase + Tensor2" where
  "jacobian this i =
     Assert (update_jacobians \<in> update_flags this) (ExcAccessToUninitializedField ''update_jacobians'')
    (AssertIndexRange i (length (jacobians (mapping_output this)))
    (Assert (is_initialized (present_cell this)) ExcNotReinited
      (Inr (jacobians (mapping_output this) ! i))))"

definition jacobian_grad :: "FEValuesBase \<Rightarrow> nat \<Rightarrow> ExceptionBase + Tensor3" where
  "jacobian_grad this i =
     Assert (update_jacobian_grads \<in> update_flags this) (ExcAccessToUninitializedField ''update_jacobians_grads'')
    (AssertIndexRange i (length (jacobian_grads (mapping_output this)))
    (Assert (is_initialized (present_cell this)) ExcNotReinited
      (Inr (jacobian_grads (mapping_output this) ! i))))"

definition inverse_jacobian :: "FEValuesBase \<Rightarrow> nat \<Rightarrow> ExceptionBase + Tensor2" where
  "inverse_jacobian this i =
     Assert (update_inverse_jacobians \<in> update_flags this) (ExcAccessToUninitializedField ''update_inverse_jacobians'')
    (AssertIndexRange i (length (inverse_jacobians (mapping_output this)))
    (Assert (is_initialized (present_cell this)) ExcNotReinited
      (Inr (inverse_jacobians (mapping_output this) ! i))))"

definition normal_vector :: "FEValuesBase \<Rightarrow> nat \<Rightarrow> ExceptionBase + Tensor1" where
  "normal_vector this i =
     Assert (update_normal_vectors \<in> update_flags this) (ExcAccessToUninitializedField ''update_normal_vectors'')
    (AssertIndexRange i (length (normal_vectors (mapping_output this)))
    (Assert (is_initialized (present_cell this)) ExcNotReinited
      (Inr (normal_vectors (mapping_output this) ! i))))"

definition boundary_form :: "FEValuesBase \<Rightarrow> nat \<Rightarrow> ExceptionBase + Tensor1" where
  "boundary_form this i =
     AssertIndexRange i (length (boundary_forms (mapping_output this)))
    (Assert (update_boundary_forms \<in> update_flags this) (ExcAccessToUninitializedField ''update_boundary_forms'')
      (Inr (boundary_forms (mapping_output this) ! i)))"

subsection \<open>Component views\<close>

text \<open>
  A view (\<open>FEValuesViews::Scalar\<close>, \<open>Vector\<close>, \<open>SymmetricTensor<2>\<close>,
  \<open>Tensor<2>\<close>) holds a pointer \<open>fe_values\<close> to the \<open>FEValuesBase\<close> object, the
  first component it selects (\<open>component\<close>, \<open>first_vector_component\<close>,
  \<open>first_tensor_component\<close>) and one \<open>ShapeFunctionData\<close> per shape function.
  The four classes differ in the type of that data only, so one record serves them.
\<close>

record 'd FEValuesView =
  fe_values :: FEValuesBase
  first_component :: nat
  shape_function_data :: "'d list"

text \<open>\<open>Scalar::ShapeFunctionData\<close>.\<close>

record Scalar_ShapeFunctionData =
  scalar_is_nonzero_shape_function_component :: bool
  scalar_row_index :: nat

text \<open>
  \<open>Vector::ShapeFunctionData\<close>, \<open>SymmetricTensor<2>::ShapeFunctionData\<close> and
  \<open>Tensor<2>::ShapeFunctionData\<close> have the same four members; the two arrays have
  \<open>spacedim\<close> entries for the vector view and \<open>n_independent_components\<close> entries
  for the tensor views.
\<close>

record ShapeFunctionData =
  is_nonzero_shape_function_component :: "bool list"
  row_index :: "nat list"
  single_nonzero_component :: int
  single_nonzero_component_index :: nat

subsubsection \<open>\<open>FEValuesViews::Scalar\<close>\<close>

definition Scalar_value ::
  "Scalar_ShapeFunctionData FEValuesView \<Rightarrow> nat \<Rightarrow> nat \<Rightarrow> ExceptionBase + real" where
  "Scalar_value this shape_function q_point =
     AssertIndexRange shape_function (n_dofs_per_cell (fe (fe_values this)))
    (Assert (update_values \<in> update_flags (fe_values this))
       (ExcAccessToUninitializedField ''update_values'')
      (if scalar_is_nonzero_shape_function_component (shape_function_data this ! shape_function)
       then Inr (shape_values (finite_element_output (fe_values this))
                   (scalar_row_index (shape_function_data this ! shape_function)) q_point)
       else Inr 0))"

definition Scalar_gradient ::
  "nat \<Rightarrow> Scalar_ShapeFunctionData FEValuesView \<Rightarrow> nat \<Rightarrow> nat \<Rightarrow> ExceptionBase + Tensor1" where
  "Scalar_gradient spacedim this shape_function q_point =
     AssertIndexRange shape_function (n_dofs_per_cell (fe (fe_values this)))
    (Assert (update_gradients \<in> update_flags (fe_values this))
       (ExcAccessToUninitializedField ''update_gradients'')
      (if scalar_is_nonzero_shape_function_component (shape_function_data this ! shape_function)
       then Inr (shape_gradients (finite_element_output (fe_values this))
                   (scalar_row_index (shape_function_data this ! shape_function)) q_point)
       else Inr (Tensor1_zero spacedim)))"

definition Scalar_hessian ::
  "nat \<Rightarrow> Scalar_ShapeFunctionData FEValuesView \<Rightarrow> nat \<Rightarrow> nat \<Rightarrow> ExceptionBase + Tensor2" where
  "Scalar_hessian spacedim this shape_function q_point =
     AssertIndexRange shape_function (n_dofs_per_cell (fe (fe_values this)))
    (Assert (update_hessians \<in> update_flags (fe_values this))
       (ExcAccessToUninitializedField ''update_hessians'')
      (if scalar_is_nonzero_shape_function_component (shape_function_data this ! shape_function)
       then Inr (shape_hessians (finite_element_output (fe_values this))
                   (scalar_row_index (shape_function_data this ! shape_function)) q_point)
       else Inr (Tensor2_zero spacedim)))"

definition Scalar_third_derivative ::
  "nat \<Rightarrow> Scalar_ShapeFunctionData FEValuesView \<Rightarrow> nat \<Rightarrow> nat \<Rightarrow> ExceptionBase + Tensor3" where
  "Scalar_third_derivative spacedim this shape_function q_point =
     AssertIndexRange shape_function (n_dofs_per_cell (fe (fe_values this)))
    (Assert (update_3rd_derivatives \<in> update_flags (fe_values this))
       (ExcAccessToUninitializedField ''update_3rd_derivatives'')
      (if scalar_is_nonzero_shape_function_component (shape_function_data this ! shape_function)
       then Inr (shape_3rd_derivatives (finite_element_output (fe_values this))
                   (scalar_row_index (shape_function_data this ! shape_function)) q_point)
       else Inr (Tensor3_zero spacedim)))"

subsubsection \<open>\<open>FEValuesViews::Vector\<close>\<close>

text \<open>
  \<open>snc\<close> is the \<open>int\<close> member \<open>single_nonzero_component\<close>; it is used as a row
  (\<open>nat snc\<close>) only where it is neither \<open>-2\<close> nor \<open>-1\<close>. The loop
  \<open>for (d = 0; d < dim; ++d) if (is_nonzero[d]) return_value[d] = ...\<close> is a fold over
  \<open>[0..<dim]\<close> that starts from the zero tensor.
\<close>

definition Vector_value ::
  "nat \<Rightarrow> nat \<Rightarrow> ShapeFunctionData FEValuesView \<Rightarrow> nat \<Rightarrow> nat \<Rightarrow> ExceptionBase + Tensor1" where
  "Vector_value dim' spacedim this shape_function q_point =
     AssertIndexRange shape_function (n_dofs_per_cell (fe (fe_values this)))
    (Assert (update_values \<in> update_flags (fe_values this))
       (ExcAccessToUninitializedField ''update_values'')
      (let sfd = shape_function_data this ! shape_function;
           snc = single_nonzero_component sfd
       in if snc = - 2 then Inr (Tensor1_zero spacedim)
          else if snc \<noteq> - 1 then
            Inr ((Tensor1_zero spacedim)
                   [single_nonzero_component_index sfd :=
                      shape_values (finite_element_output (fe_values this)) (nat snc) q_point])
          else
            Inr (fold (\<lambda>d return_value.
                         if is_nonzero_shape_function_component sfd ! d
                         then return_value
                                [d := shape_values (finite_element_output (fe_values this))
                                        (row_index sfd ! d) q_point]
                         else return_value)
                   [0..<dim'] (Tensor1_zero spacedim))))"

definition Vector_gradient ::
  "nat \<Rightarrow> nat \<Rightarrow> ShapeFunctionData FEValuesView \<Rightarrow> nat \<Rightarrow> nat \<Rightarrow> ExceptionBase + Tensor2" where
  "Vector_gradient dim' spacedim this shape_function q_point =
     AssertIndexRange shape_function (n_dofs_per_cell (fe (fe_values this)))
    (Assert (update_gradients \<in> update_flags (fe_values this))
       (ExcAccessToUninitializedField ''update_gradients'')
      (let sfd = shape_function_data this ! shape_function;
           snc = single_nonzero_component sfd
       in if snc = - 2 then Inr (Tensor2_zero spacedim)
          else if snc \<noteq> - 1 then
            Inr ((Tensor2_zero spacedim)
                   [single_nonzero_component_index sfd :=
                      shape_gradients (finite_element_output (fe_values this)) (nat snc) q_point])
          else
            Inr (fold (\<lambda>d return_value.
                         if is_nonzero_shape_function_component sfd ! d
                         then return_value
                                [d := shape_gradients (finite_element_output (fe_values this))
                                        (row_index sfd ! d) q_point]
                         else return_value)
                   [0..<dim'] (Tensor2_zero spacedim))))"

definition Vector_divergence ::
  "nat \<Rightarrow> ShapeFunctionData FEValuesView \<Rightarrow> nat \<Rightarrow> nat \<Rightarrow> ExceptionBase + real" where
  "Vector_divergence dim' this shape_function q_point =
     AssertIndexRange shape_function (n_dofs_per_cell (fe (fe_values this)))
    (Assert (update_gradients \<in> update_flags (fe_values this))
       (ExcAccessToUninitializedField ''update_gradients'')
      (let sfd = shape_function_data this ! shape_function;
           snc = single_nonzero_component sfd
       in if snc = - 2 then Inr 0
          else if snc \<noteq> - 1 then
            Inr (shape_gradients (finite_element_output (fe_values this)) (nat snc) q_point
                   ! single_nonzero_component_index sfd)
          else
            Inr (fold (\<lambda>d return_value.
                         if is_nonzero_shape_function_component sfd ! d
                         then return_value
                                + shape_gradients (finite_element_output (fe_values this))
                                    (row_index sfd ! d) q_point ! d
                         else return_value)
                   [0..<dim'] 0)))"

definition Vector_hessian ::
  "nat \<Rightarrow> nat \<Rightarrow> ShapeFunctionData FEValuesView \<Rightarrow> nat \<Rightarrow> nat \<Rightarrow> ExceptionBase + Tensor3" where
  "Vector_hessian dim' spacedim this shape_function q_point =
     AssertIndexRange shape_function (n_dofs_per_cell (fe (fe_values this)))
    (Assert (update_hessians \<in> update_flags (fe_values this))
       (ExcAccessToUninitializedField ''update_hessians'')
      (let sfd = shape_function_data this ! shape_function;
           snc = single_nonzero_component sfd
       in if snc = - 2 then Inr (Tensor3_zero spacedim)
          else if snc \<noteq> - 1 then
            Inr ((Tensor3_zero spacedim)
                   [single_nonzero_component_index sfd :=
                      shape_hessians (finite_element_output (fe_values this)) (nat snc) q_point])
          else
            Inr (fold (\<lambda>d return_value.
                         if is_nonzero_shape_function_component sfd ! d
                         then return_value
                                [d := shape_hessians (finite_element_output (fe_values this))
                                        (row_index sfd ! d) q_point]
                         else return_value)
                   [0..<dim'] (Tensor3_zero spacedim))))"

definition Vector_third_derivative ::
  "nat \<Rightarrow> nat \<Rightarrow> ShapeFunctionData FEValuesView \<Rightarrow> nat \<Rightarrow> nat \<Rightarrow> ExceptionBase + Tensor4" where
  "Vector_third_derivative dim' spacedim this shape_function q_point =
     AssertIndexRange shape_function (n_dofs_per_cell (fe (fe_values this)))
    (Assert (update_3rd_derivatives \<in> update_flags (fe_values this))
       (ExcAccessToUninitializedField ''update_3rd_derivatives'')
      (let sfd = shape_function_data this ! shape_function;
           snc = single_nonzero_component sfd
       in if snc = - 2 then Inr (Tensor4_zero spacedim)
          else if snc \<noteq> - 1 then
            Inr ((Tensor4_zero spacedim)
                   [single_nonzero_component_index sfd :=
                      shape_3rd_derivatives (finite_element_output (fe_values this)) (nat snc) q_point])
          else
            Inr (fold (\<lambda>d return_value.
                         if is_nonzero_shape_function_component sfd ! d
                         then return_value
                                [d := shape_3rd_derivatives (finite_element_output (fe_values this))
                                        (row_index sfd ! d) q_point]
                         else return_value)
                   [0..<dim'] (Tensor4_zero spacedim))))"

text \<open>
  \<open>curl_type\<close> is \<open>CurlType<spacedim>::type\<close>: a \<open>Tensor<1,3>\<close> for
  \<open>spacedim = 3\<close> and a \<open>Tensor<1,1>\<close> for \<open>spacedim = 1\<close> and \<open>2\<close>.
\<close>

definition CurlType_n_components :: "nat \<Rightarrow> nat" where
  "CurlType_n_components spacedim = (if spacedim = 3 then 3 else 1)"

definition Vector_curl ::
  "nat \<Rightarrow> nat \<Rightarrow> ShapeFunctionData FEValuesView \<Rightarrow> nat \<Rightarrow> nat \<Rightarrow> ExceptionBase + Tensor1" where
  "Vector_curl dim' spacedim this shape_function q_point =
     AssertIndexRange shape_function (n_dofs_per_cell (fe (fe_values this)))
    (Assert (update_gradients \<in> update_flags (fe_values this))
       (ExcAccessToUninitializedField ''update_gradients'')
      (let sfd = shape_function_data this ! shape_function;
           snc = single_nonzero_component sfd;
           grads = shape_gradients (finite_element_output (fe_values this));
           is_nonzero = is_nonzero_shape_function_component sfd;
           row = row_index sfd;
           curl_type = Tensor1_zero (CurlType_n_components spacedim)
       in if snc = - 2 then Inr curl_type
          else if dim' = 1 then
            Inl (ExcMessage ''Computing the curl in 1d is not a useful operation'')
          else if dim' = 2 then
            (if snc \<noteq> - 1 then
               (if single_nonzero_component_index sfd = 0
                then Inr (curl_type [0 := - 1 * (grads (nat snc) q_point ! 1)])
                else Inr (curl_type [0 := grads (nat snc) q_point ! 0]))
             else
               (let r0 = curl_type [0 := 0];
                    r1 = (if is_nonzero ! 0
                          then r0 [0 := r0 ! 0 - grads (row ! 0) q_point ! 1] else r0);
                    r2 = (if is_nonzero ! 1
                          then r1 [0 := r1 ! 0 + grads (row ! 1) q_point ! 0] else r1)
                in Inr r2))
          else if dim' = 3 then
            (if snc \<noteq> - 1 then
               (if single_nonzero_component_index sfd = 0
                then Inr (curl_type [0 := 0,
                                     1 := grads (nat snc) q_point ! 2,
                                     2 := - 1 * (grads (nat snc) q_point ! 1)])
                else if single_nonzero_component_index sfd = 1
                then Inr (curl_type [0 := - 1 * (grads (nat snc) q_point ! 2),
                                     1 := 0,
                                     2 := grads (nat snc) q_point ! 0])
                else Inr (curl_type [0 := grads (nat snc) q_point ! 1,
                                     1 := - 1 * (grads (nat snc) q_point ! 0),
                                     2 := 0]))
             else
               (let r0 = fold (\<lambda>i return_value. return_value [i := 0]) [0..<dim'] curl_type;
                    r1 = (if is_nonzero ! 0
                          then r0 [1 := r0 ! 1 + grads (row ! 0) q_point ! 2,
                                   2 := r0 ! 2 - grads (row ! 0) q_point ! 1]
                          else r0);
                    r2 = (if is_nonzero ! 1
                          then r1 [0 := r1 ! 0 - grads (row ! 1) q_point ! 2,
                                   2 := r1 ! 2 + grads (row ! 1) q_point ! 0]
                          else r1);
                    r3 = (if is_nonzero ! 2
                          then r2 [0 := r2 ! 0 + grads (row ! 2) q_point ! 1,
                                   1 := r2 ! 1 - grads (row ! 2) q_point ! 0]
                          else r2)
                in Inr r3))
          else Inl ExcInternalError))"

subsubsection \<open>Symmetric tensors and \<open>symmetrize_single_row\<close>\<close>

text \<open>
  Modelled from the spec: the class \<open>SymmetricTensor<2,n>\<close> (\<open>symmetric_tensor.h\<close>)
  is declared elsewhere. It stores its \<open>(n*n + n)/2\<close> independent components in an
  array, the diagonal first and then the entries above the diagonal row by row; the
  constructor from an array, which \<open>symmetrize_single_row\<close> calls, takes them in
  this order. \<open>unrolled_to_component_indices\<close> maps a position of the array to
  the pair of indices, \<open>component_to_unrolled_index\<close> maps a pair of indices (in
  either order) to its position.
\<close>

type_synonym SymmetricTensor2 = "real list"

definition SymmetricTensor2_n_independent_components :: "nat \<Rightarrow> nat" where
  "SymmetricTensor2_n_independent_components n = (n * n + n) div 2"

definition SymmetricTensor2_zero :: "nat \<Rightarrow> SymmetricTensor2" where
  "SymmetricTensor2_zero n = replicate (SymmetricTensor2_n_independent_components n) 0"

definition SymmetricTensor2_unrolled_table :: "nat \<Rightarrow> (nat \<times> nat) list" where
  "SymmetricTensor2_unrolled_table n =
     map (\<lambda>i. (i, i)) [0..<n] @ concat (map (\<lambda>d. map (\<lambda>e. (d, e)) [Suc d..<n]) [0..<n])"

definition SymmetricTensor2_unrolled_to_component_indices :: "nat \<Rightarrow> nat \<Rightarrow> nat \<times> nat" where
  "SymmetricTensor2_unrolled_to_component_indices n i = SymmetricTensor2_unrolled_table n ! i"

definition SymmetricTensor2_component_to_unrolled_index :: "nat \<Rightarrow> nat \<times> nat \<Rightarrow> nat" where
  "SymmetricTensor2_component_to_unrolled_index n ij =
     length (takeWhile (\<lambda>kl. kl \<noteq> (min (fst ij) (snd ij), max (fst ij) (snd ij)))
               (SymmetricTensor2_unrolled_table n))"

text \<open>\<open>s[indices]\<close> and \<open>s[indices] = x\<close> for a symmetric tensor \<open>s\<close>.\<close>

definition SymmetricTensor2_at :: "nat \<Rightarrow> SymmetricTensor2 \<Rightarrow> nat \<times> nat \<Rightarrow> real" where
  "SymmetricTensor2_at n s ij = s ! SymmetricTensor2_component_to_unrolled_index n ij"

definition SymmetricTensor2_set ::
  "nat \<Rightarrow> SymmetricTensor2 \<Rightarrow> nat \<times> nat \<Rightarrow> real \<Rightarrow> SymmetricTensor2" where
  "SymmetricTensor2_set n s ij x = s [SymmetricTensor2_component_to_unrolled_index n ij := x]"

text \<open>
  Modelled from the spec: \<open>symmetrize\<close> and \<open>trace\<close> (\<open>symmetric_tensor.h\<close>,
  \<open>tensor.h\<close>) are declared elsewhere. \<open>symmetrize(G)\<close> is the symmetric tensor
  \<open>(G + G\<^sup>T)/2\<close>, \<open>trace(G)\<close> the sum of the diagonal of \<open>G\<close>.
\<close>

definition symmetrize :: "nat \<Rightarrow> Tensor2 \<Rightarrow> SymmetricTensor2" where
  "symmetrize n G = map (\<lambda>ij. (G ! fst ij ! snd ij + G ! snd ij ! fst ij) / 2)
                      (SymmetricTensor2_unrolled_table n)"

definition trace :: "nat \<Rightarrow> Tensor2 \<Rightarrow> real" where
  "trace n G = sum_list (map (\<lambda>i. G ! i ! i) [0..<n])"

text \<open>
  The three overloads of \<open>internal::symmetrize_single_row\<close>, for a
  \<open>Tensor<1,1>\<close>, a \<open>Tensor<1,2>\<close> and a \<open>Tensor<1,3>\<close>.
\<close>

definition symmetrize_single_row_1 :: "nat \<Rightarrow> Tensor1 \<Rightarrow> ExceptionBase + SymmetricTensor2" where
  "symmetrize_single_row_1 n t = AssertIndexRange n 1 (Inr [t ! 0])"

definition symmetrize_single_row_2 :: "nat \<Rightarrow> Tensor1 \<Rightarrow> ExceptionBase + SymmetricTensor2" where
  "symmetrize_single_row_2 n t =
     (if n = 0 then Inr [t ! 0, 0, t ! 1 / 2]
      else if n = 1 then Inr [0, t ! 1, t ! 0 / 2]
      else AssertIndexRange n 2 (Inr (SymmetricTensor2_zero 2)))"

definition symmetrize_single_row_3 :: "nat \<Rightarrow> Tensor1 \<Rightarrow> ExceptionBase + SymmetricTensor2" where
  "symmetrize_single_row_3 n t =
     (if n = 0 then Inr [t ! 0, 0, 0, t ! 1 / 2, t ! 2 / 2, 0]
      else if n = 1 then Inr [0, t ! 1, 0, t ! 0 / 2, 0, t ! 2 / 2]
      else if n = 2 then Inr [0, 0, t ! 2, 0, t ! 0 / 2, t ! 1 / 2]
      else AssertIndexRange n 3 (Inr (SymmetricTensor2_zero 3)))"

text \<open>
  Overload resolution: the argument of \<open>symmetrize_single_row\<close> in
  \<open>Vector::symmetric_gradient\<close> is a \<open>Tensor<1,spacedim>\<close>, and \<open>spacedim\<close> is 1, 2
  or 3.
\<close>

definition symmetrize_single_row :: "nat \<Rightarrow> nat \<Rightarrow> Tensor1 \<Rightarrow> ExceptionBase + SymmetricTensor2" where
  "symmetrize_single_row spacedim n t =
     (if spacedim = 1 then symmetrize_single_row_1 n t
      else if spacedim = 2 then symmetrize_single_row_2 n t
      else symmetrize_single_row_3 n t)"

definition Vector_symmetric_gradient ::
  "nat \<Rightarrow> nat \<Rightarrow> ShapeFunctionData FEValuesView \<Rightarrow> nat \<Rightarrow> nat \<Rightarrow> ExceptionBase + SymmetricTensor2" where
  "Vector_symmetric_gradient dim' spacedim this shape_function q_point =
     AssertIndexRange shape_function (n_dofs_per_cell (fe (fe_values this)))
    (Assert (update_gradients \<in> update_flags (fe_values this))
       (ExcAccessToUninitializedField ''update_gradients'')
      (let sfd = shape_function_data this ! shape_function;
           snc = single_nonzero_component sfd
       in if snc = - 2 then Inr (SymmetricTensor2_zero spacedim)
          else if snc \<noteq> - 1 then
            symmetrize_single_row spacedim (single_nonzero_component_index sfd)
              (shape_gradients (finite_element_output (fe_values this)) (nat snc) q_point)
          else
            Inr (symmetrize spacedim
                   (fold (\<lambda>d return_value.
                            if is_nonzero_shape_function_component sfd ! d
                            then return_value
                                   [d := shape_gradients (finite_element_output (fe_values this))
                                           (row_index sfd ! d) q_point]
                            else return_value)
                      [0..<dim'] (Tensor2_zero spacedim)))))"

subsubsection \<open>\<open>FEValuesViews::SymmetricTensor<2>\<close>\<close>

text \<open>
  \<open>value_type\<close> is \<open>SymmetricTensor<2,spacedim>\<close> and \<open>divergence_type\<close> is
  \<open>Tensor<1,spacedim>\<close>.
\<close>

definition SymmetricTensor_value ::
  "nat \<Rightarrow> ShapeFunctionData FEValuesView \<Rightarrow> nat \<Rightarrow> nat \<Rightarrow> ExceptionBase + SymmetricTensor2" where
  "SymmetricTensor_value spacedim this shape_function q_point =
     AssertIndexRange shape_function (n_dofs_per_cell (fe (fe_values this)))
    (Assert (update_values \<in> update_flags (fe_values this))
       (ExcAccessToUninitializedField ''update_values'')
      (let sfd = shape_function_data this ! shape_function;
           snc = single_nonzero_component sfd
       in if snc = - 2 then Inr (SymmetricTensor2_zero spacedim)
          else if snc \<noteq> - 1 then
            (let comp = single_nonzero_component_index sfd
             in Inr (SymmetricTensor2_set spacedim (SymmetricTensor2_zero spacedim)
                       (SymmetricTensor2_unrolled_to_component_indices spacedim comp)
                       (shape_values (finite_element_output (fe_values this)) (nat snc) q_point)))
          else
            Inr (fold (\<lambda>d return_value.
                         if is_nonzero_shape_function_component sfd ! d
                         then SymmetricTensor2_set spacedim return_value
                                (SymmetricTensor2_unrolled_to_component_indices spacedim d)
                                (shape_values (finite_element_output (fe_values this))
                                   (row_index sfd ! d) q_point)
                         else return_value)
                   [0..<SymmetricTensor2_n_independent_components spacedim]
                   (SymmetricTensor2_zero spacedim))))"

definition SymmetricTensor_divergence ::
  "nat \<Rightarrow> ShapeFunctionData FEValuesView \<Rightarrow> nat \<Rightarrow> nat \<Rightarrow> ExceptionBase + Tensor1" where
  "SymmetricTensor_divergence spacedim this shape_function q_point =
     AssertIndexRange shape_function (n_dofs_per_cell (fe (fe_values this)))
    (Assert (update_gradients \<in> update_flags (fe_values this))
       (ExcAccessToUninitializedField ''update_gradients'')
      (let sfd = shape_function_data this ! shape_function;
           snc = single_nonzero_component sfd
       in if snc = - 2 then Inr (Tensor1_zero spacedim)
          else if snc \<noteq> - 1 then
            (let comp = single_nonzero_component_index sfd;
                 ii = fst (SymmetricTensor2_unrolled_to_component_indices spacedim comp);
                 jj = snd (SymmetricTensor2_unrolled_to_component_indices spacedim comp);
                 phi_grad = shape_gradients (finite_element_output (fe_values this)) (nat snc) q_point;
                 return_value = (Tensor1_zero spacedim) [ii := phi_grad ! jj]
             in if ii \<noteq> jj then Inr (return_value [jj := phi_grad ! ii])
                else Inr return_value)
          else Inl ExcNotImplemented))"

subsubsection \<open>\<open>FEValuesViews::Tensor<2>\<close>\<close>

text \<open>
  \<open>value_type\<close> is \<open>Tensor<2,spacedim>\<close>, \<open>divergence_type\<close> is
  \<open>Tensor<1,spacedim>\<close> and \<open>gradient_type\<close> is \<open>Tensor<3,spacedim>\<close>.
  \<open>Tensor<2,n>::unrolled_to_component_indices\<close> (\<open>tensor.h\<close>) numbers the entries row
  by row.
\<close>

definition Tensor2_unrolled_to_component_indices :: "nat \<Rightarrow> nat \<Rightarrow> nat \<times> nat" where
  "Tensor2_unrolled_to_component_indices n i = (i div n, i mod n)"

text \<open>\<open>t[indices] = x\<close> for a tensor \<open>t\<close> of rank 2.\<close>

definition Tensor2_set :: "Tensor2 \<Rightarrow> nat \<times> nat \<Rightarrow> real \<Rightarrow> Tensor2" where
  "Tensor2_set t ij x = t [fst ij := (t ! fst ij) [snd ij := x]]"

definition Tensor_value ::
  "nat \<Rightarrow> nat \<Rightarrow> ShapeFunctionData FEValuesView \<Rightarrow> nat \<Rightarrow> nat \<Rightarrow> ExceptionBase + Tensor2" where
  "Tensor_value dim' spacedim this shape_function q_point =
     AssertIndexRange shape_function (n_dofs_per_cell (fe (fe_values this)))
    (Assert (update_values \<in> update_flags (fe_values this))
       (ExcAccessToUninitializedField ''update_values'')
      (let sfd = shape_function_data this ! shape_function;
           snc = single_nonzero_component sfd
       in if snc = - 2 then Inr (Tensor2_zero spacedim)
          else if snc \<noteq> - 1 then
            (let comp = single_nonzero_component_index sfd;
                 indices = Tensor2_unrolled_to_component_indices spacedim comp
             in Inr (Tensor2_set (Tensor2_zero spacedim) indices
                       (shape_values (finite_element_output (fe_values this)) (nat snc) q_point)))
          else
            Inr (fold (\<lambda>d return_value.
                         if is_nonzero_shape_function_component sfd ! d
                         then (let indices = Tensor2_unrolled_to_component_indices spacedim d
                               in Tensor2_set return_value indices
                                    (shape_values (finite_element_output (fe_values this))
                                       (row_index sfd ! d) q_point))
                         else return_value)
                   [0..<dim' * dim'] (Tensor2_zero spacedim))))"

definition Tensor_divergence ::
  "nat \<Rightarrow> ShapeFunctionData FEValuesView \<Rightarrow> nat \<Rightarrow> nat \<Rightarrow> ExceptionBase + Tensor1" where
  "Tensor_divergence spacedim this shape_function q_point =
     AssertIndexRange shape_function (n_dofs_per_cell (fe (fe_values this)))
    (Assert (update_gradients \<in> update_flags (fe_values this))
       (ExcAccessToUninitializedField ''update_gradients'')
      (let sfd = shape_function_data this ! shape_function;
           snc = single_nonzero_component sfd
       in if snc = - 2 then Inr (Tensor1_zero spacedim)
          else if snc \<noteq> - 1 then
            (let comp = single_nonzero_component_index sfd;
                 indices = Tensor2_unrolled_to_component_indices spacedim comp;
                 ii = fst indices;
                 jj = snd indices;
                 phi_grad = shape_gradients (finite_element_output (fe_values this)) (nat snc) q_point
             in Inr ((Tensor1_zero spacedim) [ii := phi_grad ! jj]))
          else Inl ExcNotImplemented))"

definition Tensor_gradient ::
  "nat \<Rightarrow> ShapeFunctionData FEValuesView \<Rightarrow> nat \<Rightarrow> nat \<Rightarrow> ExceptionBase + Tensor3" where
  "Tensor_gradient spacedim this shape_function q_point =
     AssertIndexRange shape_function (n_dofs_per_cell (fe (fe_values this)))
    (Assert (update_gradients \<in> update_flags (fe_values this))
       (ExcAccessToUninitializedField ''update_gradients'')
      (let sfd = shape_function_data this ! shape_function;
           snc = single_nonzero_component sfd
       in if snc = - 2 then Inr (Tensor3_zero spacedim)
          else if snc \<noteq> - 1 then
            (let comp = single_nonzero_component_index sfd;
                 indices = Tensor2_unrolled_to_component_indices spacedim comp;
                 ii = fst indices;
                 jj = snd indices;
                 phi_grad = shape_gradients (finite_element_output (fe_values this)) (nat snc) q_point
             in Inr ((Tensor3_zero spacedim)
                       [ii := ((Tensor3_zero spacedim) ! ii) [jj := phi_grad]]))
          else Inl ExcNotImplemented))"

subsection \<open>Construction of the shape function data\<close>

text \<open>
  The documented meaning of the members of \<open>ShapeFunctionData\<close>, for a view over
  \<open>n\<close> components: if exactly one entry of \<open>is_nonzero_shape_function_component\<close>
  is set, \<open>single_nonzero_component\<close> is the corresponding entry of \<open>row_index\<close> and
  \<open>single_nonzero_component_index\<close> is the index at which it is attained; if several
  entries are set it is \<open>-1\<close>, if none is set it is \<open>-2\<close>.
\<close>

definition count_nonzero :: "bool list \<Rightarrow> nat" where
  "count_nonzero bs = length (filter (\<lambda>b. b) bs)"

definition ShapeFunctionData_invariant :: "nat \<Rightarrow> ShapeFunctionData \<Rightarrow> bool" where
  "ShapeFunctionData_invariant n sfd =
     (length (is_nonzero_shape_function_component sfd) = n
      \<and> length (row_index sfd) = n
      \<and> (if count_nonzero (is_nonzero_shape_function_component sfd) = 0
          then single_nonzero_component sfd = - 2
          else if count_nonzero (is_nonzero_shape_function_component sfd) > 1
          then single_nonzero_component sfd = - 1
          else single_nonzero_component_index sfd < n
               \<and> is_nonzero_shape_function_component sfd ! single_nonzero_component_index sfd
               \<and> single_nonzero_component sfd
                   = int (row_index sfd ! single_nonzero_component_index sfd)))"

text \<open>
  Modelled from the spec: the constructors of the views (\<open>fe_values.cc\<close>) are not
  part of the header. Following the description of the component view layer, for every
  shape function the constructor inspects the element's nonzero components restricted
  to the block of the view, which starts at the view's first component: entry \<open>d\<close> of
  \<open>is_nonzero_shape_function_component\<close> tells whether component \<open>first + d\<close> of
  the shape function is structurally nonzero, entry \<open>d\<close> of \<open>row_index\<close> is the row of
  the cache that holds it, as \<open>shape_function_to_row_table\<close> gives it (the entry
  of a structurally zero component is never read), and \<open>single_nonzero_component\<close>
  is the row, none (\<open>-2\<close>) or multiple (\<open>-1\<close>). The block
  has one component for the scalar view, \<open>spacedim\<close> for the vector view and
  \<open>n_independent_components\<close> of the value type for the tensor views.
\<close>

definition first_nonzero :: "bool list \<Rightarrow> nat" where
  "first_nonzero bs = length (takeWhile (\<lambda>b. \<not> b) bs)"

definition make_ShapeFunctionData ::
  "nat \<Rightarrow> FiniteElement \<Rightarrow> nat list \<Rightarrow> nat \<Rightarrow> nat \<Rightarrow> ShapeFunctionData" where
  "make_ShapeFunctionData n el table first i =
     (let is_nonzero = map (\<lambda>d. get_nonzero_components el i ! (first + d)) [0..<n];
          rows = map (\<lambda>d. table ! (i * n_components el + (first + d))) [0..<n]
      in \<lparr> is_nonzero_shape_function_component = is_nonzero,
           row_index = rows,
           single_nonzero_component =
             (if count_nonzero is_nonzero = 0 then - 2
              else if count_nonzero is_nonzero > 1 then - 1
              else int (rows ! first_nonzero is_nonzero)),
           single_nonzero_component_index =
             (if count_nonzero is_nonzero = 1 then first_nonzero is_nonzero else 0) \<rparr>)"

definition make_Scalar_ShapeFunctionData ::
  "FiniteElement \<Rightarrow> nat list \<Rightarrow> nat \<Rightarrow> nat \<Rightarrow> Scalar_ShapeFunctionData" where
  "make_Scalar_ShapeFunctionData el table component i =
     \<lparr> scalar_is_nonzero_shape_function_component = get_nonzero_components el i ! component,
       scalar_row_index = table ! (i * n_components el + component) \<rparr>"

definition make_Scalar_view :: "FEValuesBase \<Rightarrow> nat \<Rightarrow> Scalar_ShapeFunctionData FEValuesView" where
  "make_Scalar_view fe_values_base component =
     \<lparr> fe_values = fe_values_base, first_component = component,
       shape_function_data =
         map (make_Scalar_ShapeFunctionData (fe fe_values_base)
                (shape_function_to_row_table (finite_element_output fe_values_base)) component)
           [0..<n_dofs_per_cell (fe fe_values_base)] \<rparr>"

definition make_view :: "nat \<Rightarrow> FEValuesBase \<Rightarrow> nat \<Rightarrow> ShapeFunctionData FEValuesView" where
  "make_view n fe_values_base first =
     \<lparr> fe_values = fe_values_base, first_component = first,
       shape_function_data =
         map (make_ShapeFunctionData n (fe fe_values_base)
                (shape_function_to_row_table (finite_element_output fe_values_base)) first)
           [0..<n_dofs_per_cell (fe fe_values_base)] \<rparr>"

definition make_Vector_view :: "nat \<Rightarrow> FEValuesBase \<Rightarrow> nat \<Rightarrow> ShapeFunctionData FEValuesView" where
  "make_Vector_view spacedim fe_values_base first_vector_component =
     make_view spacedim fe_values_base first_vector_component"

definition make_SymmetricTensor_view ::
  "nat \<Rightarrow> FEValuesBase \<Rightarrow> nat \<Rightarrow> ShapeFunctionData FEValuesView" where
  "make_SymmetricTensor_view spacedim fe_values_base first_tensor_component =
     make_view (SymmetricTensor2_n_independent_components spacedim) fe_values_base
       first_tensor_component"

definition make_Tensor_view :: "nat \<Rightarrow> FEValuesBase \<Rightarrow> nat \<Rightarrow> ShapeFunctionData FEValuesView" where
  "make_Tensor_view spacedim fe_values_base first_tensor_component =
     make_view (spacedim * spacedim) fe_values_base first_tensor_component"

subsection \<open>Reference definition of the assembled value\<close>

text \<open>
  The value of the vector view as the description of the component view layer words it
  for a shape function with several nonzero components: the elementwise assembly over
  the structurally nonzero components of the view's block of \<open>spacedim\<close> components,
  each with the cache entry of its row. \<open>single_row_value\<close> is what the fast path
  would give for the row of one component \<open>k\<close> alone.
\<close>

definition assembly_over_nonzero_rows ::
  "nat \<Rightarrow> ShapeFunctionData FEValuesView \<Rightarrow> nat \<Rightarrow> nat \<Rightarrow> Tensor1" where
  "assembly_over_nonzero_rows spacedim this shape_function q_point =
     (let sfd = shape_function_data this ! shape_function
      in map (\<lambda>d. if is_nonzero_shape_function_component sfd ! d
                  then shape_values (finite_element_output (fe_values this))
                         (row_index sfd ! d) q_point
                  else 0)
           [0..<spacedim])"

definition single_row_value ::
  "nat \<Rightarrow> ShapeFunctionData FEValuesView \<Rightarrow> nat \<Rightarrow> nat \<Rightarrow> nat \<Rightarrow> Tensor1" where
  "single_row_value spacedim this shape_function q_point k =
     (Tensor1_zero spacedim)
       [k := shape_values (finite_element_output (fe_values this))
               (row_index (shape_function_data this ! shape_function) ! k) q_point]"

subsection \<open>Reference definitions of the curl\<close>

text \<open>
  The curl as the antisymmetric part of a gradient \<open>G\<close> with \<open>G[i][j] = du_i/dx_j\<close>: in
  two dimensions the single component \<open>du_2/dx - du_1/dy\<close>, in three dimensions the
  usual vector.
\<close>

definition curl_of_gradient_2d :: "Tensor2 \<Rightarrow> Tensor1" where
  "curl_of_gradient_2d G = [G ! 1 ! 0 - G ! 0 ! 1]"

definition curl_of_gradient_3d :: "Tensor2 \<Rightarrow> Tensor1" where
  "curl_of_gradient_3d G =
     [G ! 2 ! 1 - G ! 1 ! 2, G ! 0 ! 2 - G ! 2 ! 0, G ! 1 ! 0 - G ! 0 ! 1]"

subsection \<open>Example objects\<close>

text \<open>
  A primitive element with one component and four shape functions, evaluated at three
  quadrature points with values and gradients requested. In the example caches row
  \<open>r\<close> holds the value \<open>10 r + q\<close> and the gradient with entries
  \<open>100 r + 10 q + k + 1\<close> at point \<open>q\<close>.
\<close>

definition primitive_fe :: FiniteElement where
  "primitive_fe = \<lparr> n_dofs_per_cell = 4, n_components = 1,
     get_nonzero_components = (\<lambda>i. [True]),
     system_to_component_index = (\<lambda>i. (0, i)) \<rparr>"

definition no_mapping_output :: MappingRelatedData where
  "no_mapping_output = \<lparr> quadrature_points = [], JxW_values = [], jacobians = [],
     jacobian_grads = [], jacobian_pushed_forward_grads = [], jacobian_2nd_derivatives = [],
     jacobian_pushed_forward_2nd_derivatives = [], jacobian_3rd_derivatives = [],
     jacobian_pushed_forward_3rd_derivatives = [], inverse_jacobians = [],
     normal_vectors = [], boundary_forms = [] \<rparr>"

definition example_output :: "nat \<Rightarrow> nat list \<Rightarrow> FiniteElementRelatedData" where
  "example_output spacedim table = \<lparr>
     shape_values = (\<lambda>row q. 10 * real row + real q),
     shape_gradients = (\<lambda>row q. map (\<lambda>k. 100 * real row + 10 * real q + real k + 1) [0..<spacedim]),
     shape_hessians = (\<lambda>row q. Tensor2_zero spacedim),
     shape_3rd_derivatives = (\<lambda>row q. Tensor3_zero spacedim),
     shape_function_to_row_table = table \<rparr>"

definition primitive_fe_values :: FEValuesBase where
  "primitive_fe_values = \<lparr> fe = primitive_fe,
     update_flags = {update_values, update_gradients},
     present_cell = \<lparr> initialized = True \<rparr>,
     mapping_output = no_mapping_output,
     finite_element_output = example_output 2 [0, 1, 2, 3] \<rparr>"

text \<open>
  A non-primitive element with \<open>n\<close> components and two shape functions: the first is
  nonzero in the components 0 and \<open>n - 1\<close> (rows 0 and 1 of the cache), the second in
  component 0 only (row 2). Its \<open>FEValuesBase\<close> object has a cell loaded and the
  given update flags.
\<close>

definition nonprimitive_fe :: "nat \<Rightarrow> FiniteElement" where
  "nonprimitive_fe n = \<lparr> n_dofs_per_cell = 2, n_components = n,
     get_nonzero_components =
       (\<lambda>i. if i = 0 then map (\<lambda>c. c = 0 \<or> c = n - 1) [0..<n] else map (\<lambda>c. c = 0) [0..<n]),
     system_to_component_index = (\<lambda>i. (0, i)) \<rparr>"

definition nonprimitive_table :: "nat \<Rightarrow> nat list" where
  "nonprimitive_table n =
     map (\<lambda>k. if k = 0 then 0 else if k = n - 1 then 1 else if k = n then 2 else 3)
       [0..<2 * n]"

definition nonprimitive_fe_values :: "nat \<Rightarrow> nat \<Rightarrow> UpdateFlags \<Rightarrow> FEValuesBase" where
  "nonprimitive_fe_values spacedim n flags = \<lparr> fe = nonprimitive_fe n,
     update_flags = flags,
     present_cell = \<lparr> initialized = True \<rparr>,
     mapping_output = no_mapping_output,
     finite_element_output = example_output spacedim (nonprimitive_table n) \<rparr>"

text \<open>
  Views over the non-primitive element, with values and gradients requested: the vector
  view, the symmetric tensor view and the tensor view that start at component \<open>first\<close>.
\<close>

definition example_flags :: UpdateFlags where
  "example_flags = {update_values, update_gradients}"

definition vector_view :: "nat \<Rightarrow> nat \<Rightarrow> nat \<Rightarrow> ShapeFunctionData FEValuesView" where
  "vector_view spacedim n first =
     make_Vector_view spacedim (nonprimitive_fe_values spacedim n example_flags) first"

definition symmetric_tensor_view :: "nat \<Rightarrow> nat \<Rightarrow> nat \<Rightarrow> ShapeFunctionData FEValuesView" where
  "symmetric_tensor_view spacedim n first =
     make_SymmetricTensor_view spacedim (nonprimitive_fe_values spacedim n example_flags) first"

definition tensor_view :: "nat \<Rightarrow> nat \<Rightarrow> nat \<Rightarrow> ShapeFunctionData FEValuesView" where
  "tensor_view spacedim n first =
     make_Tensor_view spacedim (nonprimitive_fe_values spacedim n example_flags) first"


text \<open>
  A primitive element with three components and one shape function per component
  (shape function \<open>i\<close> is nonzero in component \<open>i\<close> only and is stored in row \<open>i\<close> of the
  cache), on a surface in space: its vector view \<open>Vector<2,3>\<close> starts at component 0
  and covers the three components.
\<close>

definition primitive_system_fe :: FiniteElement where
  "primitive_system_fe = \<lparr> n_dofs_per_cell = 3, n_components = 3,
     get_nonzero_components = (\<lambda>i. map (\<lambda>c. c = i) [0..<3]),
     system_to_component_index = (\<lambda>i. (i, 0)) \<rparr>"

definition primitive_system_fe_values :: FEValuesBase where
  "primitive_system_fe_values = \<lparr> fe = primitive_system_fe,
     update_flags = example_flags,
     present_cell = \<lparr> initialized = True \<rparr>,
     mapping_output = no_mapping_output,
     finite_element_output = example_output 3 [0, 0, 0, 1, 1, 1, 2, 2, 2] \<rparr>"

definition primitive_vector_view :: "ShapeFunctionData FEValuesView" where
  "primitive_vector_view = make_Vector_view 3 primitive_system_fe_values 0"

section \<open>Properties\<close>

subsection \<open>Zero tensors and the loops over the components\<close>

lemma Tensor1_zero_length [simp]: "length (Tensor1_zero n) = n"
  by (simp add: Tensor1_zero_def)

lemma Tensor1_zero_nth [simp]: "k < n \<Longrightarrow> Tensor1_zero n ! k = 0"
  by (simp add: Tensor1_zero_def)

lemma Tensor2_zero_length [simp]: "length (Tensor2_zero n) = n"
  by (simp add: Tensor2_zero_def)

lemma Tensor2_zero_nth [simp]: "k < n \<Longrightarrow> Tensor2_zero n ! k = Tensor1_zero n"
  by (simp add: Tensor2_zero_def)

lemma Tensor3_zero_length [simp]: "length (Tensor3_zero n) = n"
  by (simp add: Tensor3_zero_def)

lemma Tensor3_zero_nth [simp]: "k < n \<Longrightarrow> Tensor3_zero n ! k = Tensor2_zero n"
  by (simp add: Tensor3_zero_def)

lemma Tensor1_zero_2: "Tensor1_zero 2 = [0, 0]"
  by (simp add: Tensor1_zero_def numeral_2_eq_2)

lemma Tensor1_zero_3: "Tensor1_zero 3 = [0, 0, 0]"
  by (simp add: Tensor1_zero_def numeral_3_eq_3)

lemma Tensor2_zero_2: "Tensor2_zero 2 = [[0, 0], [0, 0]]"
  by (simp add: Tensor2_zero_def Tensor1_zero_2) (simp add: numeral_2_eq_2)

lemma Tensor2_zero_3: "Tensor2_zero 3 = [[0, 0, 0], [0, 0, 0], [0, 0, 0]]"
  by (simp add: Tensor2_zero_def Tensor1_zero_3) (simp add: numeral_3_eq_3)

lemma upt_2: "[0..<2] = [0, 1]"
  by (simp add: upt_rec)

lemma upt_3: "[0..<3] = [0, 1, 2]"
  by (simp add: upt_rec)

lemma less_2_cases: "(n::nat) < 2 \<Longrightarrow> n = 0 \<or> n = 1"
  by auto

lemma less_3_cases: "(n::nat) < 3 \<Longrightarrow> n = 0 \<or> n = 1 \<or> n = 2"
  by auto

text \<open>
  The loop \<open>for d < n: if (P d) rv[d] = f d\<close> keeps the length of \<open>rv\<close> and sets
  exactly the entries \<open>d < n\<close> with \<open>P d\<close>; the loop \<open>for d < n: if (P d) rv += f d\<close>
  adds the selected terms.
\<close>

lemma fold_assign_length:
  "length (fold (\<lambda>d rv. if P d then rv [d := f d] else rv) ds z) = length z"
  by (induction ds arbitrary: z) auto

lemma fold_assign_nth:
  "k < length z \<Longrightarrow>
   fold (\<lambda>d rv. if P d then rv [d := f d] else rv) [0..<n] z ! k
     = (if k < n \<and> P k then f k else z ! k)"
proof (induction n)
  case 0
  then show ?case by simp
next
  case (Suc n)
  then show ?case
    by (auto simp: fold_assign_length nth_list_update less_Suc_eq)
qed

lemma fold_add_sum_list:
  fixes a :: real
  shows "fold (\<lambda>d rv. if P d then rv + f d else rv) ds a
           = a + sum_list (map (\<lambda>d. if P d then f d else 0) ds)"
  by (induction ds arbitrary: a) auto

subsection \<open>The example objects\<close>

lemma primitive_fe_is_primitive: "is_primitive primitive_fe"
  by (simp add: is_primitive_def list_all_iff is_primitive_shape_function_def
      n_nonzero_components_def primitive_fe_def)

lemma n_dofs_nonprimitive [simp]:
  "n_dofs_per_cell (fe (nonprimitive_fe_values spacedim n flags)) = 2"
  by (simp add: nonprimitive_fe_values_def nonprimitive_fe_def)

lemma update_flags_nonprimitive [simp]:
  "update_flags (nonprimitive_fe_values spacedim n flags) = flags"
  by (simp add: nonprimitive_fe_values_def)

lemma shape_values_nonprimitive [simp]:
  "shape_values (finite_element_output (nonprimitive_fe_values spacedim n flags)) row q
     = 10 * real row + real q"
  by (simp add: nonprimitive_fe_values_def example_output_def)

lemma shape_gradients_nonprimitive [simp]:
  "shape_gradients (finite_element_output (nonprimitive_fe_values spacedim n flags)) row q
     = map (\<lambda>k. 100 * real row + 10 * real q + real k + 1) [0..<spacedim]"
  by (simp add: nonprimitive_fe_values_def example_output_def)

lemma fe_values_vector_view:
  "fe_values (vector_view spacedim n first) = nonprimitive_fe_values spacedim n example_flags"
  by (simp add: vector_view_def make_Vector_view_def make_view_def)

lemma fe_values_symmetric_tensor_view:
  "fe_values (symmetric_tensor_view spacedim n first)
     = nonprimitive_fe_values spacedim n example_flags"
  by (simp add: symmetric_tensor_view_def make_SymmetricTensor_view_def make_view_def)

lemma fe_values_tensor_view:
  "fe_values (tensor_view spacedim n first) = nonprimitive_fe_values spacedim n example_flags"
  by (simp add: tensor_view_def make_Tensor_view_def make_view_def)

text \<open>
  The shape function data of the example views: in two dimensions the first shape
  function has two nonzero components and the second one; seen from component 1 of the
  element with three components, the second shape function has none.
\<close>

lemma vector_view_2d_data_0:
  "shape_function_data (vector_view 2 2 0) ! 0
     = \<lparr> is_nonzero_shape_function_component = [True, True], row_index = [0, 1],
         single_nonzero_component = - 1, single_nonzero_component_index = 0 \<rparr>"
  by code_simp

lemma vector_view_2d_data_1:
  "shape_function_data (vector_view 2 2 0) ! 1
     = \<lparr> is_nonzero_shape_function_component = [True, False], row_index = [2, 3],
         single_nonzero_component = 2, single_nonzero_component_index = 0 \<rparr>"
  by code_simp

lemma vector_view_offset_data_1:
  "shape_function_data (vector_view 2 3 1) ! 1
     = \<lparr> is_nonzero_shape_function_component = [False, False], row_index = [3, 3],
         single_nonzero_component = - 2, single_nonzero_component_index = 0 \<rparr>"
  by code_simp

lemma vector_view_flags:
  "update_values \<in> update_flags (fe_values (vector_view spacedim n first))"
  "update_gradients \<in> update_flags (fe_values (vector_view spacedim n first))"
  by (simp_all add: fe_values_vector_view example_flags_def)

lemma vector_view_index:
  "i < 2 \<Longrightarrow> i < n_dofs_per_cell (fe (fe_values (vector_view spacedim n first)))"
  by (simp add: fe_values_vector_view)

subsection \<open>The shape function data built by the constructors\<close>

lemma count_nonzero_simps [simp]:
  "count_nonzero [] = 0"
  "count_nonzero (b # bs) = (if b then Suc (count_nonzero bs) else count_nonzero bs)"
  by (simp_all add: count_nonzero_def)

lemma first_nonzero_simps [simp]:
  "first_nonzero [] = 0"
  "first_nonzero (b # bs) = (if b then 0 else Suc (first_nonzero bs))"
  by (simp_all add: first_nonzero_def)

lemma count_nonzero_0_iff: "count_nonzero bs = 0 \<longleftrightarrow> (\<forall>d<length bs. \<not> bs ! d)"
  by (induction bs) (auto simp: nth_Cons split: nat.splits)

lemma first_nonzero_less:
  "0 < count_nonzero bs \<Longrightarrow> first_nonzero bs < length bs \<and> bs ! first_nonzero bs"
  by (induction bs) auto

lemma count_nonzero_1_unique:
  "count_nonzero bs = 1 \<Longrightarrow> d < length bs \<Longrightarrow> bs ! d \<Longrightarrow> d = first_nonzero bs"
proof (induction bs arbitrary: d)
  case Nil
  then show ?case by simp
next
  case (Cons b bs)
  show ?case
  proof (cases b)
    case True
    with Cons.prems(1) have "count_nonzero bs = 0" by simp
    then have "\<forall>e<length bs. \<not> bs ! e" by (simp add: count_nonzero_0_iff)
    with Cons.prems(2,3) True show ?thesis
      by (cases d) auto
  next
    case False
    with Cons.prems obtain e where "d = Suc e"
      by (cases d) auto
    with Cons False show ?thesis by auto
  qed
qed

text \<open>The modelled constructor establishes the documented meaning of the members.\<close>

lemma make_ShapeFunctionData_invariant:
  "ShapeFunctionData_invariant n (make_ShapeFunctionData n el table first i)"
proof -
  let ?nz = "map (\<lambda>d. get_nonzero_components el i ! (first + d)) [0..<n]"
  have "first_nonzero ?nz < n \<and> ?nz ! first_nonzero ?nz" if "0 < count_nonzero ?nz"
    using first_nonzero_less [OF that] by simp
  then show ?thesis
    by (auto simp: ShapeFunctionData_invariant_def make_ShapeFunctionData_def Let_def)
qed

lemma invariant_none_iff:
  assumes "ShapeFunctionData_invariant n sfd"
  shows "single_nonzero_component sfd = - 2
           \<longleftrightarrow> (\<forall>d<n. \<not> is_nonzero_shape_function_component sfd ! d)"
  using assms count_nonzero_0_iff [of "is_nonzero_shape_function_component sfd"]
  by (auto simp: ShapeFunctionData_invariant_def split: if_splits)

subsection \<open>Primitive elements: \<open>shape_value\<close> reads the row of the shape function\<close>

lemma is_primitive_shape_functionI:
  assumes "is_primitive el" and "i < n_dofs_per_cell el"
  shows "is_primitive_shape_function el i"
  using assms by (simp add: is_primitive_def list_all_iff)

text \<open>
  Claim C9. For an element in which every shape function is primitive, with
  \<open>update_values\<close> requested and a cell loaded, \<open>shape_value(i, j)\<close> returns exactly
  the cache entry \<open>shape_values(i, j)\<close>: the row is the shape function index itself and
  \<open>shape_function_to_row_table\<close> is not consulted.
\<close>

theorem shape_value_primitive_element:
  assumes "is_primitive (fe this)"
    and "update_values \<in> update_flags this"
    and "is_initialized (present_cell this)"
    and "i < n_dofs_per_cell (fe this)"
  shows "shape_value this i j = Inr (shape_values (finite_element_output this) i j)"
  using assms is_primitive_shape_functionI [of "fe this" i]
  by (simp add: shape_value_def AssertIndexRange_def Assert_def)

theorem shape_value_primitive_element_witness:
  "is_primitive (fe primitive_fe_values)
   \<and> update_values \<in> update_flags primitive_fe_values
   \<and> is_initialized (present_cell primitive_fe_values)
   \<and> 2 < n_dofs_per_cell (fe primitive_fe_values)
   \<and> shape_value primitive_fe_values 2 1 = Inr 21"
proof -
  have p: "is_primitive (fe primitive_fe_values)"
    using primitive_fe_is_primitive by (simp add: primitive_fe_values_def)
  have f: "update_values \<in> update_flags primitive_fe_values"
    by (simp add: primitive_fe_values_def)
  have c: "is_initialized (present_cell primitive_fe_values)"
    by (simp add: primitive_fe_values_def is_initialized_def)
  have n: "2 < n_dofs_per_cell (fe primitive_fe_values)"
    by (simp add: primitive_fe_values_def primitive_fe_def)
  have "shape_value primitive_fe_values 2 1 = Inr 21"
    using shape_value_primitive_element [OF p f c n, of 1]
    by (simp add: primitive_fe_values_def example_output_def)
  with p f c n show ?thesis by simp
qed

subsection \<open>The dispatch of \<open>Vector::value\<close>\<close>

text \<open>
  For a valid shape function and with \<open>update_values\<close> requested,
  \<open>Vector::value\<close> follows the three states of \<open>single_nonzero_component\<close>:
  \<^item> for \<open>-2\<close> (no nonzero component) the result is the zero vector;
  \<^item> for a row, the result has the cache entry of that row at
    \<open>single_nonzero_component_index\<close> and zero everywhere else;
  \<^item> for \<open>-1\<close> (several nonzero components) the result is what the loop over
    the first \<open>dim\<close> entries of \<open>is_nonzero_shape_function_component\<close> assembles:
    entry \<open>d < dim\<close> is the cache entry of row \<open>row_index[d]\<close> where the component is
    structurally nonzero, and every other entry is zero;
  \<^item> so, when exactly the two components \<open>a\<close> and \<open>b\<close> among those the loop visits
    are nonzero, the result is the zero vector with the entries of both rows assigned.
\<close>

theorem Vector_value_states:
  assumes "shape_function < n_dofs_per_cell (fe (fe_values this))"
    and "update_values \<in> update_flags (fe_values this)"
  defines "sfd \<equiv> shape_function_data this ! shape_function"
  defines "values \<equiv> shape_values (finite_element_output (fe_values this))"
  shows "(single_nonzero_component sfd = - 2 \<longrightarrow>
            Vector_value dim' spacedim this shape_function q_point = Inr (Tensor1_zero spacedim))
       \<and> (single_nonzero_component sfd \<noteq> - 2 \<and> single_nonzero_component sfd \<noteq> - 1
            \<and> single_nonzero_component_index sfd < spacedim \<longrightarrow>
            (\<exists>v. Vector_value dim' spacedim this shape_function q_point = Inr v
                 \<and> length v = spacedim
                 \<and> v ! single_nonzero_component_index sfd
                     = values (nat (single_nonzero_component sfd)) q_point
                 \<and> (\<forall>d<spacedim. d \<noteq> single_nonzero_component_index sfd \<longrightarrow> v ! d = 0)))
       \<and> (single_nonzero_component sfd = - 1 \<longrightarrow>
            (\<exists>v. Vector_value dim' spacedim this shape_function q_point = Inr v
                 \<and> length v = spacedim
                 \<and> (\<forall>d<spacedim. v ! d =
                       (if d < dim' \<and> is_nonzero_shape_function_component sfd ! d
                        then values (row_index sfd ! d) q_point else 0))))
       \<and> (single_nonzero_component sfd = - 1 \<and> a < dim' \<and> b < dim' \<and> a \<noteq> b
            \<and> dim' \<le> spacedim
            \<and> (\<forall>d<dim'. is_nonzero_shape_function_component sfd ! d \<longleftrightarrow> d = a \<or> d = b) \<longrightarrow>
            Vector_value dim' spacedim this shape_function q_point
              = Inr ((Tensor1_zero spacedim)
                       [a := values (row_index sfd ! a) q_point,
                        b := values (row_index sfd ! b) q_point]))"
proof -
  let ?loop = "fold (\<lambda>d rv. if is_nonzero_shape_function_component sfd ! d
                              then rv [d := values (row_index sfd ! d) q_point] else rv)
                 [0..<dim'] (Tensor1_zero spacedim)"
  have none: "single_nonzero_component sfd = - 2 \<Longrightarrow>
      Vector_value dim' spacedim this shape_function q_point = Inr (Tensor1_zero spacedim)"
    using assms(1,2) unfolding sfd_def values_def
    by (simp add: Vector_value_def AssertIndexRange_def Assert_def Let_def)
  have single: "single_nonzero_component sfd \<noteq> - 2 \<Longrightarrow> single_nonzero_component sfd \<noteq> - 1 \<Longrightarrow>
      Vector_value dim' spacedim this shape_function q_point
        = Inr ((Tensor1_zero spacedim) [single_nonzero_component_index sfd :=
                 values (nat (single_nonzero_component sfd)) q_point])"
    using assms(1,2) unfolding sfd_def values_def
    by (simp add: Vector_value_def AssertIndexRange_def Assert_def Let_def)
  have multi: "single_nonzero_component sfd = - 1 \<Longrightarrow>
      Vector_value dim' spacedim this shape_function q_point = Inr ?loop"
    using assms(1,2) unfolding sfd_def values_def
    by (simp add: Vector_value_def AssertIndexRange_def Assert_def Let_def)
  have two: "?loop = (Tensor1_zero spacedim)
                       [a := values (row_index sfd ! a) q_point,
                        b := values (row_index sfd ! b) q_point]"
    if "a < dim'" "b < dim'" "a \<noteq> b" "dim' \<le> spacedim"
       "\<forall>d<dim'. is_nonzero_shape_function_component sfd ! d \<longleftrightarrow> d = a \<or> d = b"
  proof (rule nth_equalityI)
    show "length ?loop = length ((Tensor1_zero spacedim)
                       [a := values (row_index sfd ! a) q_point,
                        b := values (row_index sfd ! b) q_point])"
      by (simp add: fold_assign_length)
  next
    fix k
    assume "k < length ?loop"
    then have k: "k < spacedim" by (simp add: fold_assign_length)
    with that show "?loop ! k = (Tensor1_zero spacedim)
                       [a := values (row_index sfd ! a) q_point,
                        b := values (row_index sfd ! b) q_point] ! k"
      by (auto simp: fold_assign_nth nth_list_update)
  qed
  show ?thesis
    using none single multi two
    by (auto simp: fold_assign_length fold_assign_nth nth_list_update)
qed

theorem Vector_value_states_example:
  "single_nonzero_component (shape_function_data (vector_view 2 3 1) ! 1) = - 2
   \<and> Vector_value 2 2 (vector_view 2 3 1) 1 1 = Inr [0, 0]
   \<and> single_nonzero_component (shape_function_data (vector_view 2 2 0) ! 1) = 2
   \<and> single_nonzero_component_index (shape_function_data (vector_view 2 2 0) ! 1) = 0
   \<and> (\<exists>v. Vector_value 2 2 (vector_view 2 2 0) 1 1 = Inr v \<and> length v = 2
           \<and> v ! 0 = 21 \<and> v ! 1 = 0)
   \<and> single_nonzero_component (shape_function_data (vector_view 2 2 0) ! 0) = - 1
   \<and> Vector_value 2 2 (vector_view 2 2 0) 0 1 = Inr [1, 11]"
proof -
  have none: "Vector_value 2 2 (vector_view 2 3 1) 1 1 = Inr [0, 0]"
    using Vector_value_states [where this = "vector_view 2 3 1" and shape_function = 1
        and dim' = 2 and spacedim = 2 and q_point = 1 and a = 0 and b = 0,
        OF vector_view_index vector_view_flags(1),
        unfolded vector_view_offset_data_1 fe_values_vector_view]
    by (simp add: Tensor1_zero_2)
  have single: "\<exists>v. Vector_value 2 2 (vector_view 2 2 0) 1 1 = Inr v \<and> length v = 2
           \<and> v ! 0 = 21 \<and> v ! 1 = 0"
    using Vector_value_states [where this = "vector_view 2 2 0" and shape_function = 1
        and dim' = 2 and spacedim = 2 and q_point = 1 and a = 0 and b = 0,
        OF vector_view_index vector_view_flags(1),
        unfolded vector_view_2d_data_1 fe_values_vector_view]
    by auto
  have multi: "Vector_value 2 2 (vector_view 2 2 0) 0 1 = Inr [1, 11]"
    using Vector_value_states [where this = "vector_view 2 2 0" and shape_function = 0
        and dim' = 2 and spacedim = 2 and q_point = 1 and a = 0 and b = 1,
        OF vector_view_index vector_view_flags(1),
        unfolded vector_view_2d_data_0 fe_values_vector_view]
    by (simp add: Tensor1_zero_def less_Suc_eq numeral_2_eq_2)
  have state_none: "single_nonzero_component (shape_function_data (vector_view 2 3 1) ! 1) = - 2"
    unfolding vector_view_offset_data_1 by simp
  have state_single: "single_nonzero_component (shape_function_data (vector_view 2 2 0) ! 1) = 2"
    "single_nonzero_component_index (shape_function_data (vector_view 2 2 0) ! 1) = 0"
    unfolding vector_view_2d_data_1 by simp_all
  have state_multi: "single_nonzero_component (shape_function_data (vector_view 2 2 0) ! 0) = - 1"
    unfolding vector_view_2d_data_0 by simp
  from none single multi state_none state_single state_multi show ?thesis
    by blast
qed

text \<open>
  In the state of several nonzero components the result is the elementwise assembly over
  all structurally nonzero components of the block, provided that none of them lies
  beyond the first \<open>dim\<close> components; this is so whenever \<open>dim = spacedim\<close>.
\<close>

lemma Vector_value_multiple_is_assembly:
  assumes "shape_function < n_dofs_per_cell (fe (fe_values this))"
    and "update_values \<in> update_flags (fe_values this)"
    and "single_nonzero_component (shape_function_data this ! shape_function) = - 1"
    and "\<forall>d<spacedim. dim' \<le> d \<longrightarrow>
           \<not> is_nonzero_shape_function_component (shape_function_data this ! shape_function) ! d"
  shows "Vector_value dim' spacedim this shape_function q_point
           = Inr (assembly_over_nonzero_rows spacedim this shape_function q_point)"
proof -
  let ?sfd = "shape_function_data this ! shape_function"
  let ?cache = "shape_values (finite_element_output (fe_values this))"
  let ?loop = "fold (\<lambda>d rv. if is_nonzero_shape_function_component ?sfd ! d
                              then rv [d := ?cache (row_index ?sfd ! d) q_point] else rv)
                 [0..<dim'] (Tensor1_zero spacedim)"
  have "Vector_value dim' spacedim this shape_function q_point = Inr ?loop"
    using assms(1-3)
    by (simp add: Vector_value_def AssertIndexRange_def Assert_def Let_def)
  moreover have "?loop = assembly_over_nonzero_rows spacedim this shape_function q_point"
  proof (rule nth_equalityI)
    show "length ?loop = length (assembly_over_nonzero_rows spacedim this shape_function q_point)"
      by (simp add: fold_assign_length assembly_over_nonzero_rows_def Let_def)
  next
    fix k
    assume "k < length ?loop"
    then have k: "k < spacedim" by (simp add: fold_assign_length)
    with assms(4)
    show "?loop ! k = assembly_over_nonzero_rows spacedim this shape_function q_point ! k"
      by (auto simp: fold_assign_nth assembly_over_nonzero_rows_def Let_def)
  qed
  ultimately show ?thesis by simp
qed

text \<open>
  Claim C1 says that \<open>Vector::value\<close> follows the dispatch over the three states and
  that, for a non-primitive shape function with two nonzero components, the result is
  the elementwise assembly over both nonzero rows, never a single-row result. The
  descriptor arrays of the view have \<open>spacedim\<close> entries, but the loop of the third state
  stops at \<open>dim\<close>. In codimension one (\<open>Vector<2,3>\<close>), for the shape function of the
  example that is nonzero in the components 0 and 2 of the block (rows 0 and 1 of the
  cache), the descriptor is in the state of several nonzero components and
  \<open>value(0, 1)\<close> is \<open>(1, 0, 0)\<close>: not the assembly \<open>(1, 0, 11)\<close> over both rows, but
  exactly what row 0 alone gives.
\<close>

theorem Vector_value_codimension_one_is_not_assembly:
  "is_nonzero_shape_function_component (shape_function_data (vector_view 3 3 0) ! 0)
     = [True, False, True]
   \<and> row_index (shape_function_data (vector_view 3 3 0) ! 0) ! 0 = 0
   \<and> row_index (shape_function_data (vector_view 3 3 0) ! 0) ! 2 = 1
   \<and> single_nonzero_component (shape_function_data (vector_view 3 3 0) ! 0) = - 1
   \<and> assembly_over_nonzero_rows 3 (vector_view 3 3 0) 0 1 = [1, 0, 11]
   \<and> single_row_value 3 (vector_view 3 3 0) 0 1 0 = [1, 0, 0]
   \<and> Vector_value 2 3 (vector_view 3 3 0) 0 1 = Inr [1, 0, 0]
   \<and> Vector_value 2 3 (vector_view 3 3 0) 0 1
       \<noteq> Inr (assembly_over_nonzero_rows 3 (vector_view 3 3 0) 0 1)
   \<and> Vector_value 2 3 (vector_view 3 3 0) 0 1
       = Inr (single_row_value 3 (vector_view 3 3 0) 0 1 0)"
  by code_simp

subsection \<open>Divergence, curl and symmetric gradient of the vector view\<close>

lemma Vector_gradient_unfold:
  "Vector_gradient dim' spacedim this shape_function q_point =
    (if \<not> shape_function < n_dofs_per_cell (fe (fe_values this))
     then Inl (ExcIndexRange shape_function 0 (n_dofs_per_cell (fe (fe_values this))))
     else if update_gradients \<notin> update_flags (fe_values this)
     then Inl (ExcAccessToUninitializedField ''update_gradients'')
     else if single_nonzero_component (shape_function_data this ! shape_function) = - 2
     then Inr (Tensor2_zero spacedim)
     else if single_nonzero_component (shape_function_data this ! shape_function) \<noteq> - 1
     then Inr ((Tensor2_zero spacedim)
                 [single_nonzero_component_index (shape_function_data this ! shape_function) :=
                    shape_gradients (finite_element_output (fe_values this))
                      (nat (single_nonzero_component (shape_function_data this ! shape_function)))
                      q_point])
     else Inr (fold (\<lambda>d rv.
                 if is_nonzero_shape_function_component (shape_function_data this ! shape_function) ! d
                 then rv [d := shape_gradients (finite_element_output (fe_values this))
                                 (row_index (shape_function_data this ! shape_function) ! d) q_point]
                 else rv) [0..<dim'] (Tensor2_zero spacedim)))"
  by (simp add: Vector_gradient_def AssertIndexRange_def Assert_def Let_def)

lemma trace_sum: "trace n G = (\<Sum>i\<in>{0..<n}. G ! i ! i)"
  by (simp add: trace_def interv_sum_list_conv_sum_set_nat)

lemma trace_zero: "trace spacedim (Tensor2_zero spacedim) = 0"
  by (simp add: trace_sum)

lemma trace_single_row:
  assumes "n < spacedim"
  shows "trace spacedim ((Tensor2_zero spacedim) [n := t]) = t ! n"
proof -
  have "(\<Sum>i\<in>{0..<spacedim}. (Tensor2_zero spacedim) [n := t] ! i ! i)
          = (\<Sum>i\<in>{0..<spacedim}. if i = n then t ! n else 0)"
    by (rule sum.cong) (auto simp: nth_list_update)
  also have "\<dots> = t ! n"
    using assms by simp
  finally show ?thesis by (simp add: trace_sum)
qed

lemma trace_fold_assign:
  assumes "dim' \<le> spacedim"
  shows "trace spacedim (fold (\<lambda>d rv. if P d then rv [d := g d] else rv) [0..<dim']
                           (Tensor2_zero spacedim))
         = sum_list (map (\<lambda>d. if P d then g d ! d else 0) [0..<dim'])"
proof -
  have "(\<Sum>i\<in>{0..<spacedim}. fold (\<lambda>d rv. if P d then rv [d := g d] else rv) [0..<dim']
                     (Tensor2_zero spacedim) ! i ! i)
        = (\<Sum>d\<in>{0..<spacedim}. if d \<in> {0..<dim'} then (if P d then g d ! d else 0) else 0)"
    by (rule sum.cong) (auto simp: fold_assign_nth)
  also have "\<dots> = (\<Sum>d\<in>{0..<spacedim} \<inter> {0..<dim'}. if P d then g d ! d else 0)"
    by (rule sum.inter_restrict [symmetric]) simp
  also have "{0..<spacedim} \<inter> {0..<dim'} = {0..<dim'}"
    using assms by auto
  finally show ?thesis
    by (simp add: trace_sum interv_sum_list_conv_sum_set_nat)
qed

lemma vector_view_2d_gradient_0:
  "Vector_gradient 2 2 (vector_view 2 2 0) 0 1 = Inr [[11, 12], [111, 112]]"
  by code_simp

lemma vector_view_2d_gradient_1:
  "Vector_gradient 2 2 (vector_view 2 2 0) 1 1 = Inr [[211, 212], [0, 0]]"
  by code_simp

lemma vector_view_3d_gradient_0:
  "Vector_gradient 3 3 (vector_view 3 3 0) 0 1 = Inr [[11, 12, 13], [0, 0, 0], [111, 112, 113]]"
  by code_simp

lemma vector_view_3d_gradient_1:
  "Vector_gradient 3 3 (vector_view 3 3 0) 1 1 = Inr [[211, 212, 213], [0, 0, 0], [0, 0, 0]]"
  by code_simp

lemma vector_view_index_in_range:
  "single_nonzero_component (shape_function_data (vector_view 2 2 0) ! 0) \<noteq> - 2
     \<and> single_nonzero_component (shape_function_data (vector_view 2 2 0) ! 0) \<noteq> - 1
   \<longrightarrow> single_nonzero_component_index (shape_function_data (vector_view 2 2 0) ! 0) < 2"
  "single_nonzero_component (shape_function_data (vector_view 2 2 0) ! 1) \<noteq> - 2
     \<and> single_nonzero_component (shape_function_data (vector_view 2 2 0) ! 1) \<noteq> - 1
   \<longrightarrow> single_nonzero_component_index (shape_function_data (vector_view 2 2 0) ! 1) < 2"
  "single_nonzero_component (shape_function_data (vector_view 3 3 0) ! 0) \<noteq> - 2
     \<and> single_nonzero_component (shape_function_data (vector_view 3 3 0) ! 0) \<noteq> - 1
   \<longrightarrow> single_nonzero_component_index (shape_function_data (vector_view 3 3 0) ! 0) < 3"
  "single_nonzero_component (shape_function_data (vector_view 3 3 0) ! 1) \<noteq> - 2
     \<and> single_nonzero_component (shape_function_data (vector_view 3 3 0) ! 1) \<noteq> - 1
   \<longrightarrow> single_nonzero_component_index (shape_function_data (vector_view 3 3 0) ! 1) < 3"
  by code_simp+

text \<open>
  Claim C6. In every state of the dispatch, \<open>Vector::divergence\<close> is the trace of
  \<open>Vector::gradient\<close>; where the two accessors raise, they raise the same exception.
  The single nonzero component is assumed to be one of the \<open>spacedim\<close> components of
  the view, and \<open>dim \<le> spacedim\<close>.
\<close>

theorem Vector_divergence_is_trace_of_gradient:
  assumes "dim' \<le> spacedim"
    and "single_nonzero_component (shape_function_data this ! shape_function) \<noteq> - 2
         \<and> single_nonzero_component (shape_function_data this ! shape_function) \<noteq> - 1
         \<longrightarrow> single_nonzero_component_index (shape_function_data this ! shape_function) < spacedim"
  shows "Vector_divergence dim' this shape_function q_point
           = map_sum id (trace spacedim) (Vector_gradient dim' spacedim this shape_function q_point)"
  using assms
  by (simp add: Vector_gradient_unfold Vector_divergence_def AssertIndexRange_def Assert_def
      Let_def trace_zero trace_single_row trace_fold_assign fold_add_sum_list)

theorem Vector_divergence_is_trace_of_gradient_witness:
  "(2::nat) \<le> 2
   \<and> single_nonzero_component (shape_function_data (vector_view 2 2 0) ! 1) = 2
   \<and> single_nonzero_component_index (shape_function_data (vector_view 2 2 0) ! 1) < 2
   \<and> Vector_gradient 2 2 (vector_view 2 2 0) 1 1 = Inr [[211, 212], [0, 0]]
   \<and> Vector_divergence 2 (vector_view 2 2 0) 1 1 = Inr 211
   \<and> single_nonzero_component (shape_function_data (vector_view 2 2 0) ! 0) = - 1
   \<and> Vector_gradient 2 2 (vector_view 2 2 0) 0 1 = Inr [[11, 12], [111, 112]]
   \<and> Vector_divergence 2 (vector_view 2 2 0) 0 1 = Inr 123"
proof -
  have le: "(2::nat) \<le> 2" by simp
  have tr: "trace 2 [[211, 212], [0, 0]] = 211" "trace 2 [[11, 12], [111, 112]] = 123"
    by code_simp+
  have single: "Vector_divergence 2 (vector_view 2 2 0) 1 1 = Inr 211"
    using Vector_divergence_is_trace_of_gradient [where this = "vector_view 2 2 0"
        and shape_function = 1 and dim' = 2 and spacedim = 2 and q_point = 1,
        OF le vector_view_index_in_range(2), unfolded vector_view_2d_gradient_1]
    by (simp add: tr)
  have multi: "Vector_divergence 2 (vector_view 2 2 0) 0 1 = Inr 123"
    using Vector_divergence_is_trace_of_gradient [where this = "vector_view 2 2 0"
        and shape_function = 0 and dim' = 2 and spacedim = 2 and q_point = 1,
        OF le vector_view_index_in_range(1), unfolded vector_view_2d_gradient_0]
    by (simp add: tr)
  have state: "single_nonzero_component (shape_function_data (vector_view 2 2 0) ! 1) = 2"
    "single_nonzero_component_index (shape_function_data (vector_view 2 2 0) ! 1) < 2"
    "single_nonzero_component (shape_function_data (vector_view 2 2 0) ! 0) = - 1"
    unfolding vector_view_2d_data_1 vector_view_2d_data_0 by simp_all
  from le single multi state vector_view_2d_gradient_1 vector_view_2d_gradient_0
  show ?thesis by blast
qed

lemma Vector_curl_2d:
  assumes "single_nonzero_component (shape_function_data this ! shape_function) \<noteq> - 2
         \<and> single_nonzero_component (shape_function_data this ! shape_function) \<noteq> - 1
         \<longrightarrow> single_nonzero_component_index (shape_function_data this ! shape_function) < 2"
  shows "Vector_curl 2 2 this shape_function q_point
           = map_sum id curl_of_gradient_2d (Vector_gradient 2 2 this shape_function q_point)"
proof (cases "single_nonzero_component (shape_function_data this ! shape_function) \<noteq> - 2
         \<and> single_nonzero_component (shape_function_data this ! shape_function) \<noteq> - 1")
  case True
  with assms have "single_nonzero_component_index (shape_function_data this ! shape_function) = 0
      \<or> single_nonzero_component_index (shape_function_data this ! shape_function) = 1"
    by (auto dest: less_2_cases)
  with True show ?thesis
    by (auto simp: Vector_gradient_unfold Vector_curl_def AssertIndexRange_def Assert_def Let_def
        CurlType_n_components_def Tensor1_zero_def Tensor2_zero_def curl_of_gradient_2d_def
        numeral_2_eq_2)
next
  case False
  then show ?thesis
    by (auto simp: Vector_gradient_unfold Vector_curl_def AssertIndexRange_def Assert_def Let_def
        CurlType_n_components_def Tensor1_zero_def Tensor2_zero_def curl_of_gradient_2d_def
        numeral_2_eq_2)
qed

lemma Vector_curl_3d:
  assumes "single_nonzero_component (shape_function_data this ! shape_function) \<noteq> - 2
         \<and> single_nonzero_component (shape_function_data this ! shape_function) \<noteq> - 1
         \<longrightarrow> single_nonzero_component_index (shape_function_data this ! shape_function) < 3"
  shows "Vector_curl 3 3 this shape_function q_point
           = map_sum id curl_of_gradient_3d (Vector_gradient 3 3 this shape_function q_point)"
proof (cases "single_nonzero_component (shape_function_data this ! shape_function) \<noteq> - 2
         \<and> single_nonzero_component (shape_function_data this ! shape_function) \<noteq> - 1")
  case True
  with assms have "single_nonzero_component_index (shape_function_data this ! shape_function) = 0
      \<or> single_nonzero_component_index (shape_function_data this ! shape_function) = 1
      \<or> single_nonzero_component_index (shape_function_data this ! shape_function) = 2"
    by (auto dest: less_3_cases)
  with True show ?thesis
    by (auto simp: Vector_gradient_unfold Vector_curl_def AssertIndexRange_def Assert_def Let_def
        CurlType_n_components_def Tensor1_zero_def Tensor2_zero_def curl_of_gradient_3d_def
        numeral_2_eq_2 numeral_3_eq_3)
next
  case False
  then show ?thesis
    by (auto simp: Vector_gradient_unfold Vector_curl_def AssertIndexRange_def Assert_def Let_def
        CurlType_n_components_def Tensor1_zero_def Tensor2_zero_def curl_of_gradient_3d_def
        numeral_2_eq_2 numeral_3_eq_3)
qed

text \<open>
  Where \<open>dim = spacedim\<close>: in two dimensions the single component of
  \<open>Vector::curl\<close> is \<open>gradient[1][0] - gradient[0][1]\<close>, and in three dimensions
  \<open>Vector::curl\<close> is the usual curl of \<open>Vector::gradient\<close>,
  with first component \<open>gradient[2][1] - gradient[1][2]\<close>. This holds in the fast path
  of a single nonzero component and in the path of several nonzero components; where
  the accessors raise, they raise the same exception. The single nonzero component is
  one of the components of the view.
\<close>

theorem Vector_curl_dim_eq_spacedim:
  fixes this :: "ShapeFunctionData FEValuesView" and shape_function q_point :: nat
  defines "sfd \<equiv> shape_function_data this ! shape_function"
  shows "((single_nonzero_component sfd \<noteq> - 2 \<and> single_nonzero_component sfd \<noteq> - 1
             \<longrightarrow> single_nonzero_component_index sfd < 2) \<longrightarrow>
           Vector_curl 2 2 this shape_function q_point
             = map_sum id (\<lambda>G. [G ! 1 ! 0 - G ! 0 ! 1])
                 (Vector_gradient 2 2 this shape_function q_point))
       \<and> ((single_nonzero_component sfd \<noteq> - 2 \<and> single_nonzero_component sfd \<noteq> - 1
             \<longrightarrow> single_nonzero_component_index sfd < 3) \<longrightarrow>
           Vector_curl 3 3 this shape_function q_point
             = map_sum id (\<lambda>G. [G ! 2 ! 1 - G ! 1 ! 2, G ! 0 ! 2 - G ! 2 ! 0, G ! 1 ! 0 - G ! 0 ! 1])
                 (Vector_gradient 3 3 this shape_function q_point))"
proof -
  have "curl_of_gradient_2d = (\<lambda>G. [G ! 1 ! 0 - G ! 0 ! 1])"
    by (rule ext) (simp add: curl_of_gradient_2d_def)
  moreover have "curl_of_gradient_3d
      = (\<lambda>G. [G ! 2 ! 1 - G ! 1 ! 2, G ! 0 ! 2 - G ! 2 ! 0, G ! 1 ! 0 - G ! 0 ! 1])"
    by (rule ext) (simp add: curl_of_gradient_3d_def)
  ultimately show ?thesis
    unfolding sfd_def
    using Vector_curl_2d [of this shape_function q_point]
      Vector_curl_3d [of this shape_function q_point]
    by simp
qed

theorem Vector_curl_dim_eq_spacedim_example:
  "single_nonzero_component_index (shape_function_data (vector_view 2 2 0) ! 1) < 2
   \<and> Vector_gradient 2 2 (vector_view 2 2 0) 1 1 = Inr [[211, 212], [0, 0]]
   \<and> Vector_curl 2 2 (vector_view 2 2 0) 1 1 = Inr [- 212]
   \<and> Vector_gradient 2 2 (vector_view 2 2 0) 0 1 = Inr [[11, 12], [111, 112]]
   \<and> Vector_curl 2 2 (vector_view 2 2 0) 0 1 = Inr [99]
   \<and> single_nonzero_component_index (shape_function_data (vector_view 3 3 0) ! 1) < 3
   \<and> Vector_gradient 3 3 (vector_view 3 3 0) 1 1 = Inr [[211, 212, 213], [0, 0, 0], [0, 0, 0]]
   \<and> Vector_curl 3 3 (vector_view 3 3 0) 1 1 = Inr [0, 213, - 212]
   \<and> Vector_gradient 3 3 (vector_view 3 3 0) 0 1
       = Inr [[11, 12, 13], [0, 0, 0], [111, 112, 113]]
   \<and> Vector_curl 3 3 (vector_view 3 3 0) 0 1 = Inr [112, - 98, - 12]"
proof -
  have single_2d: "Vector_curl 2 2 (vector_view 2 2 0) 1 1 = Inr [- 212]"
    using Vector_curl_dim_eq_spacedim [where this = "vector_view 2 2 0"
        and shape_function = 1 and q_point = 1, THEN conjunct1, THEN mp,
        OF vector_view_index_in_range(2), unfolded vector_view_2d_gradient_1]
    by simp
  have multi_2d: "Vector_curl 2 2 (vector_view 2 2 0) 0 1 = Inr [99]"
    using Vector_curl_dim_eq_spacedim [where this = "vector_view 2 2 0"
        and shape_function = 0 and q_point = 1, THEN conjunct1, THEN mp,
        OF vector_view_index_in_range(1), unfolded vector_view_2d_gradient_0]
    by simp
  have single_3d: "Vector_curl 3 3 (vector_view 3 3 0) 1 1 = Inr [0, 213, - 212]"
    using Vector_curl_dim_eq_spacedim [where this = "vector_view 3 3 0"
        and shape_function = 1 and q_point = 1, THEN conjunct2, THEN mp,
        OF vector_view_index_in_range(4), unfolded vector_view_3d_gradient_1]
    by simp
  have multi_3d: "Vector_curl 3 3 (vector_view 3 3 0) 0 1 = Inr [112, - 98, - 12]"
    using Vector_curl_dim_eq_spacedim [where this = "vector_view 3 3 0"
        and shape_function = 0 and q_point = 1, THEN conjunct2, THEN mp,
        OF vector_view_index_in_range(3), unfolded vector_view_3d_gradient_0]
    by simp
  have index: "single_nonzero_component_index (shape_function_data (vector_view 2 2 0) ! 1) < 2"
    "single_nonzero_component_index (shape_function_data (vector_view 3 3 0) ! 1) < 3"
    by code_simp+
  from single_2d multi_2d single_3d multi_3d index
    vector_view_2d_gradient_0 vector_view_2d_gradient_1
    vector_view_3d_gradient_0 vector_view_3d_gradient_1
  show ?thesis by blast
qed

text \<open>
  In codimension one (\<open>Vector<2,3>\<close>) the value type of the curl has three components
  and \<open>switch (dim)\<close> takes the two-dimensional case. As long as the single nonzero
  component is one of the first two components of the view, the first component of the
  result is \<open>gradient[1][0] - gradient[0][1]\<close> and the other two are zero.
\<close>

lemma Vector_curl_codimension_one:
  assumes "single_nonzero_component (shape_function_data this ! shape_function) \<noteq> - 2
         \<and> single_nonzero_component (shape_function_data this ! shape_function) \<noteq> - 1
         \<longrightarrow> single_nonzero_component_index (shape_function_data this ! shape_function) < 2"
  shows "Vector_curl 2 3 this shape_function q_point
           = map_sum id (\<lambda>G. [G ! 1 ! 0 - G ! 0 ! 1, 0, 0])
               (Vector_gradient 2 3 this shape_function q_point)"
proof (cases "single_nonzero_component (shape_function_data this ! shape_function) \<noteq> - 2
         \<and> single_nonzero_component (shape_function_data this ! shape_function) \<noteq> - 1")
  case True
  with assms have "single_nonzero_component_index (shape_function_data this ! shape_function) = 0
      \<or> single_nonzero_component_index (shape_function_data this ! shape_function) = 1"
    by (auto dest: less_2_cases)
  with True show ?thesis
    by (auto simp: Vector_gradient_unfold Vector_curl_def AssertIndexRange_def Assert_def Let_def
        CurlType_n_components_def Tensor1_zero_def Tensor2_zero_def
        numeral_2_eq_2 numeral_3_eq_3)
next
  case False
  then show ?thesis
    by (auto simp: Vector_gradient_unfold Vector_curl_def AssertIndexRange_def Assert_def Let_def
        CurlType_n_components_def Tensor1_zero_def Tensor2_zero_def
        numeral_2_eq_2 numeral_3_eq_3)
qed

text \<open>
  Claim C7 says that, for every shape function and quadrature point, the curl of the
  vector view is the antisymmetric part of its gradient: \<open>gradient[1][0] - gradient[0][1]\<close>
  in two dimensions, the usual 3-vector in three. The view \<open>Vector<2,3>\<close> covers three
  components, and for a shape function whose single nonzero component is the third one
  the two-dimensional case of \<open>switch (dim)\<close> takes its \<open>else\<close> branch, written for the
  second component. On the primitive element with three components, for shape function 2
  at point 1, the gradient of the view has the single nonzero row
  \<open>gradient[2] = (211, 212, 213)\<close> and the curl is \<open>(211, 0, 0)\<close>: neither the
  two-dimensional \<open>gradient[1][0] - gradient[0][1] = 0\<close> nor the three-dimensional
  \<open>(212, -211, 0)\<close>.
\<close>

theorem Vector_curl_codimension_one_third_component:
  "map (get_nonzero_components (fe (fe_values primitive_vector_view))) [0, 1, 2]
     = [[True, False, False], [False, True, False], [False, False, True]]
   \<and> is_nonzero_shape_function_component (shape_function_data primitive_vector_view ! 2)
       = [False, False, True]
   \<and> single_nonzero_component (shape_function_data primitive_vector_view ! 2) = 2
   \<and> single_nonzero_component_index (shape_function_data primitive_vector_view ! 2) = 2
   \<and> Vector_gradient 2 3 primitive_vector_view 2 1
       = Inr [[0, 0, 0], [0, 0, 0], [211, 212, 213]]
   \<and> Vector_curl 2 3 primitive_vector_view 2 1 = Inr [211, 0, 0]
   \<and> curl_of_gradient_2d [[0, 0, 0], [0, 0, 0], [211, 212, 213]] = [0]
   \<and> curl_of_gradient_3d [[0, 0, 0], [0, 0, 0], [211, 212, 213]] = [212, - 211, 0]
   \<and> Vector_curl 2 3 primitive_vector_view 2 1
       \<noteq> map_sum id curl_of_gradient_2d (Vector_gradient 2 3 primitive_vector_view 2 1)
   \<and> Vector_curl 2 3 primitive_vector_view 2 1
       \<noteq> map_sum id curl_of_gradient_3d (Vector_gradient 2 3 primitive_vector_view 2 1)"
  by code_simp

lemma SymmetricTensor2_unrolled_table_1: "SymmetricTensor2_unrolled_table (Suc 0) = [(0, 0)]"
  by (simp add: SymmetricTensor2_unrolled_table_def)

lemma SymmetricTensor2_unrolled_table_2:
  "SymmetricTensor2_unrolled_table 2 = [(0, 0), (1, 1), (0, 1)]"
  by (simp add: SymmetricTensor2_unrolled_table_def numeral_2_eq_2)

lemma SymmetricTensor2_unrolled_table_3:
  "SymmetricTensor2_unrolled_table 3 = [(0, 0), (1, 1), (2, 2), (0, 1), (0, 2), (1, 2)]"
  by (simp add: SymmetricTensor2_unrolled_table_def numeral_3_eq_3)

lemma symmetrize_single_row_1_correct:
  "symmetrize_single_row_1 0 t = Inr (symmetrize 1 ((Tensor2_zero 1) [0 := t]))"
  by (simp add: symmetrize_single_row_1_def AssertIndexRange_def Assert_def symmetrize_def
      SymmetricTensor2_unrolled_table_1 Tensor2_zero_def)

lemma symmetrize_single_row_2_correct:
  assumes "n < 2"
  shows "symmetrize_single_row_2 n t = Inr (symmetrize 2 ((Tensor2_zero 2) [n := t]))"
proof -
  from assms have "n = 0 \<or> n = 1" by auto
  then show ?thesis
    by (auto simp: symmetrize_single_row_2_def symmetrize_def SymmetricTensor2_unrolled_table_2
        Tensor2_zero_2)
qed

lemma symmetrize_single_row_3_correct:
  assumes "n < 3"
  shows "symmetrize_single_row_3 n t = Inr (symmetrize 3 ((Tensor2_zero 3) [n := t]))"
proof -
  from assms have "n = 0 \<or> n = 1 \<or> n = 2" by auto
  then show ?thesis
    by (auto simp: symmetrize_single_row_3_def symmetrize_def SymmetricTensor2_unrolled_table_3
        Tensor2_zero_3)
qed

lemma symmetrize_single_row_correct:
  assumes "n < spacedim" and "spacedim \<in> {1, 2, 3}"
  shows "symmetrize_single_row spacedim n t
           = Inr (symmetrize spacedim ((Tensor2_zero spacedim) [n := t]))"
  using assms
  by (auto simp: symmetrize_single_row_def symmetrize_single_row_1_correct
      symmetrize_single_row_2_correct symmetrize_single_row_3_correct)

lemma symmetrize_zero_1: "symmetrize 1 (Tensor2_zero 1) = SymmetricTensor2_zero 1"
  by code_simp

lemma symmetrize_zero_2: "symmetrize 2 (Tensor2_zero 2) = SymmetricTensor2_zero 2"
  by code_simp

lemma symmetrize_zero_3: "symmetrize 3 (Tensor2_zero 3) = SymmetricTensor2_zero 3"
  by code_simp

lemma symmetrize_zero:
  assumes "spacedim \<in> {1, 2, 3}"
  shows "symmetrize spacedim (Tensor2_zero spacedim) = SymmetricTensor2_zero spacedim"
  using assms symmetrize_zero_1 symmetrize_zero_2 symmetrize_zero_3 by auto

text \<open>
  Claim C8. \<open>Vector::symmetric_gradient\<close> is the symmetrization \<open>(G + G\<^sup>T)/2\<close> of
  \<open>G = Vector::gradient\<close> in every state of the dispatch (where the accessors raise,
  they raise the same exception), and the closed form \<open>symmetrize_single_row(n, t)\<close> of
  the fast path is \<open>symmetrize\<close> of the tensor whose row \<open>n\<close> is \<open>t\<close> and whose other
  rows are zero, for every \<open>n\<close> below the dimension and every \<open>t\<close>. The dimension
  \<open>spacedim\<close> of the tensors is 1, 2 or 3, and the single nonzero component is assumed
  to be one of the components of the view.
\<close>

theorem Vector_symmetric_gradient_is_symmetrized_gradient:
  assumes "spacedim \<in> {1, 2, 3}"
    and "single_nonzero_component (shape_function_data this ! shape_function) \<noteq> - 2
         \<and> single_nonzero_component (shape_function_data this ! shape_function) \<noteq> - 1
         \<longrightarrow> single_nonzero_component_index (shape_function_data this ! shape_function) < spacedim"
  shows "Vector_symmetric_gradient dim' spacedim this shape_function q_point
           = map_sum id (symmetrize spacedim)
               (Vector_gradient dim' spacedim this shape_function q_point)
       \<and> (\<forall>n<spacedim. symmetrize_single_row spacedim n t
                          = Inr (symmetrize spacedim ((Tensor2_zero spacedim) [n := t])))"
  using assms
  by (simp add: Vector_gradient_unfold Vector_symmetric_gradient_def AssertIndexRange_def
      Assert_def Let_def symmetrize_zero symmetrize_single_row_correct)

theorem Vector_symmetric_gradient_is_symmetrized_gradient_witness:
  "(2::nat) \<in> {1, 2, 3}
   \<and> single_nonzero_component_index (shape_function_data (vector_view 2 2 0) ! 1) < 2
   \<and> Vector_gradient 2 2 (vector_view 2 2 0) 1 1 = Inr [[211, 212], [0, 0]]
   \<and> Vector_symmetric_gradient 2 2 (vector_view 2 2 0) 1 1 = Inr [211, 0, 106]
   \<and> Vector_gradient 2 2 (vector_view 2 2 0) 0 1 = Inr [[11, 12], [111, 112]]
   \<and> Vector_symmetric_gradient 2 2 (vector_view 2 2 0) 0 1 = Inr [11, 112, 123 / 2]
   \<and> symmetrize_single_row 2 1 [3, 4] = Inr [0, 4, 3 / 2]"
proof -
  have dims: "(2::nat) \<in> {1, 2, 3}" by simp
  have sym: "symmetrize 2 [[211, 212], [0, 0]] = [211, 0, 106]"
    "symmetrize 2 [[11, 12], [111, 112]] = [11, 112, 123 / 2]"
    "symmetrize 2 ((Tensor2_zero 2) [1 := [3, 4]]) = [0, 4, 3 / 2]"
    by code_simp+
  have single: "Vector_symmetric_gradient 2 2 (vector_view 2 2 0) 1 1 = Inr [211, 0, 106]"
    using Vector_symmetric_gradient_is_symmetrized_gradient [where this = "vector_view 2 2 0"
        and shape_function = 1 and dim' = 2 and spacedim = 2 and q_point = 1,
        OF dims vector_view_index_in_range(2), THEN conjunct1,
        unfolded vector_view_2d_gradient_1]
    by (simp add: sym)
  have multi: "Vector_symmetric_gradient 2 2 (vector_view 2 2 0) 0 1 = Inr [11, 112, 123 / 2]"
    using Vector_symmetric_gradient_is_symmetrized_gradient [where this = "vector_view 2 2 0"
        and shape_function = 0 and dim' = 2 and spacedim = 2 and q_point = 1,
        OF dims vector_view_index_in_range(1), THEN conjunct1,
        unfolded vector_view_2d_gradient_0]
    by (simp add: sym)
  have one: "(1::nat) < 2" by simp
  have row: "symmetrize_single_row 2 1 [3, 4] = Inr [0, 4, 3 / 2]"
    using Vector_symmetric_gradient_is_symmetrized_gradient [where this = "vector_view 2 2 0"
        and shape_function = 0 and dim' = 2 and spacedim = 2 and q_point = 1 and t = "[3, 4]",
        OF dims vector_view_index_in_range(1), THEN conjunct2, THEN spec, THEN mp, OF one,
        unfolded sym]
    by simp
  have index: "single_nonzero_component_index (shape_function_data (vector_view 2 2 0) ! 1) < 2"
    by code_simp
  from dims single multi row index vector_view_2d_gradient_0 vector_view_2d_gradient_1
  show ?thesis by blast
qed

subsection \<open>Divergence and gradient of the tensor views\<close>

lemma contract_single_entry:
  assumes "ii < n" and "jj < n" and "k < n"
  shows "(\<Sum>j\<in>{0..<n}. (Tensor3_zero n) [ii := (Tensor3_zero n ! ii) [jj := g]] ! k ! j ! j)
           = (Tensor1_zero n) [ii := g ! jj] ! k"
proof (cases "k = ii")
  case True
  have "(\<Sum>j\<in>{0..<n}. (Tensor3_zero n) [ii := (Tensor3_zero n ! ii) [jj := g]] ! k ! j ! j)
          = (\<Sum>j\<in>{0..<n}. if j = jj then g ! jj else 0)"
    using assms True by (intro sum.cong) (auto simp: nth_list_update)
  also have "\<dots> = g ! jj"
    using assms by simp
  finally show ?thesis
    using assms True by simp
next
  case False
  have "(\<Sum>j\<in>{0..<n}. (Tensor3_zero n) [ii := (Tensor3_zero n ! ii) [jj := g]] ! k ! j ! j)
          = (\<Sum>j\<in>{0..<n}. 0)"
    using assms False by (intro sum.cong) (auto simp: nth_list_update)
  then show ?thesis
    using assms False by simp
qed

lemma symmetric_tensor_view_data:
  "shape_function_data (symmetric_tensor_view 2 3 0) ! 0
     = \<lparr> is_nonzero_shape_function_component = [True, False, True], row_index = [0, 3, 1],
         single_nonzero_component = - 1, single_nonzero_component_index = 0 \<rparr>"
  "shape_function_data (symmetric_tensor_view 2 4 1) ! 0
     = \<lparr> is_nonzero_shape_function_component = [False, False, True], row_index = [3, 3, 1],
         single_nonzero_component = 1, single_nonzero_component_index = 2 \<rparr>"
  "shape_function_data (symmetric_tensor_view 2 4 1) ! 1
     = \<lparr> is_nonzero_shape_function_component = [False, False, False], row_index = [3, 3, 3],
         single_nonzero_component = - 2, single_nonzero_component_index = 0 \<rparr>"
  by code_simp+

lemma tensor_view_data:
  "shape_function_data (tensor_view 2 4 0) ! 0
     = \<lparr> is_nonzero_shape_function_component = [True, False, False, True],
         row_index = [0, 3, 3, 1],
         single_nonzero_component = - 1, single_nonzero_component_index = 0 \<rparr>"
  "shape_function_data (tensor_view 2 5 1) ! 0
     = \<lparr> is_nonzero_shape_function_component = [False, False, False, True],
         row_index = [3, 3, 3, 1],
         single_nonzero_component = 1, single_nonzero_component_index = 3 \<rparr>"
  "shape_function_data (tensor_view 2 5 1) ! 1
     = \<lparr> is_nonzero_shape_function_component = [False, False, False, False],
         row_index = [3, 3, 3, 3],
         single_nonzero_component = - 2, single_nonzero_component_index = 0 \<rparr>"
  by code_simp+

lemma tensor_views_flags:
  "update_gradients \<in> update_flags (fe_values (symmetric_tensor_view spacedim n first))"
  "update_gradients \<in> update_flags (fe_values (tensor_view spacedim n first))"
  by (simp_all add: fe_values_symmetric_tensor_view fe_values_tensor_view example_flags_def)

lemma tensor_views_index:
  "i < 2 \<Longrightarrow> i < n_dofs_per_cell (fe (fe_values (symmetric_tensor_view spacedim n first)))"
  "i < 2 \<Longrightarrow> i < n_dofs_per_cell (fe (fe_values (tensor_view spacedim n first)))"
  by (simp_all add: fe_values_symmetric_tensor_view fe_values_tensor_view)

text \<open>
  Claim C2, as stated, fails: for a shape function with several nonzero components in
  the block of the view (\<open>single_nonzero_component = -1\<close>), the divergence of the
  symmetric tensor view and the divergence and the gradient of the tensor view raise
  \<open>ExcNotImplemented\<close>. In the example the first shape function of the non-primitive
  element is nonzero in two components of either view.
\<close>

theorem tensor_views_multiple_components_counterexample:
  "single_nonzero_component (shape_function_data (symmetric_tensor_view 2 3 0) ! 0) = - 1
   \<and> SymmetricTensor_divergence 2 (symmetric_tensor_view 2 3 0) 0 1 = Inl ExcNotImplemented
   \<and> single_nonzero_component (shape_function_data (tensor_view 2 4 0) ! 0) = - 1
   \<and> Tensor_divergence 2 (tensor_view 2 4 0) 0 1 = Inl ExcNotImplemented
   \<and> Tensor_gradient 2 (tensor_view 2 4 0) 0 1 = Inl ExcNotImplemented"
  by code_simp

text \<open>
  Claim C2, amended. For a valid shape function and with \<open>update_gradients\<close>
  requested, the divergence of the symmetric tensor view (\<open>sym\<close>) and the divergence
  and the gradient of the tensor view (\<open>ten\<close>) dispatch on
  \<open>single_nonzero_component\<close>:
  \<^item> for \<open>-2\<close> they return zero;
  \<^item> for a row, with \<open>(ii, jj)\<close> the pair of indices of the single component and
    \<open>phi_grad\<close> the gradient of that row: the symmetric divergence has \<open>phi_grad[jj]\<close>
    at \<open>ii\<close> and \<open>phi_grad[ii]\<close> at \<open>jj\<close>, the tensor divergence has \<open>phi_grad[jj]\<close>
    at \<open>ii\<close>, the tensor gradient has \<open>phi_grad\<close> at \<open>[ii][jj]\<close>, and all other
    entries are zero;
  \<^item> in these two states the tensor divergence is the contraction of the tensor
    gradient over its last two indices;
  \<^item> for \<open>-1\<close> (several nonzero components) all three raise \<open>ExcNotImplemented\<close>.
\<close>

theorem tensor_views_divergence_gradient_dispatch:
  fixes sym ten :: "ShapeFunctionData FEValuesView" and shape_function q_point spacedim :: nat
  assumes "shape_function < n_dofs_per_cell (fe (fe_values sym))"
    and "update_gradients \<in> update_flags (fe_values sym)"
    and "shape_function < n_dofs_per_cell (fe (fe_values ten))"
    and "update_gradients \<in> update_flags (fe_values ten)"
  defines "sym_sfd \<equiv> shape_function_data sym ! shape_function"
  defines "sym_phi_grad \<equiv> shape_gradients (finite_element_output (fe_values sym))
                             (nat (single_nonzero_component sym_sfd)) q_point"
  defines "s \<equiv> SymmetricTensor2_unrolled_to_component_indices spacedim
                   (single_nonzero_component_index sym_sfd)"
  defines "ten_sfd \<equiv> shape_function_data ten ! shape_function"
  defines "ten_phi_grad \<equiv> shape_gradients (finite_element_output (fe_values ten))
                             (nat (single_nonzero_component ten_sfd)) q_point"
  defines "t \<equiv> Tensor2_unrolled_to_component_indices spacedim
                   (single_nonzero_component_index ten_sfd)"
  shows "(single_nonzero_component sym_sfd = - 2 \<longrightarrow>
            SymmetricTensor_divergence spacedim sym shape_function q_point
              = Inr (Tensor1_zero spacedim))
       \<and> (single_nonzero_component sym_sfd \<noteq> - 2 \<and> single_nonzero_component sym_sfd \<noteq> - 1 \<longrightarrow>
            SymmetricTensor_divergence spacedim sym shape_function q_point
              = Inr ((Tensor1_zero spacedim)
                       [fst s := sym_phi_grad ! snd s, snd s := sym_phi_grad ! fst s]))
       \<and> (single_nonzero_component sym_sfd = - 1 \<longrightarrow>
            SymmetricTensor_divergence spacedim sym shape_function q_point
              = Inl ExcNotImplemented)
       \<and> (single_nonzero_component ten_sfd = - 2 \<longrightarrow>
            Tensor_divergence spacedim ten shape_function q_point = Inr (Tensor1_zero spacedim)
          \<and> Tensor_gradient spacedim ten shape_function q_point = Inr (Tensor3_zero spacedim))
       \<and> (single_nonzero_component ten_sfd \<noteq> - 2 \<and> single_nonzero_component ten_sfd \<noteq> - 1 \<longrightarrow>
            Tensor_divergence spacedim ten shape_function q_point
              = Inr ((Tensor1_zero spacedim) [fst t := ten_phi_grad ! snd t])
          \<and> Tensor_gradient spacedim ten shape_function q_point
              = Inr ((Tensor3_zero spacedim)
                       [fst t := (Tensor3_zero spacedim ! fst t) [snd t := ten_phi_grad]]))
       \<and> (single_nonzero_component ten_sfd \<noteq> - 1
            \<and> single_nonzero_component_index ten_sfd < spacedim * spacedim \<longrightarrow>
            (\<exists>B d. Tensor_gradient spacedim ten shape_function q_point = Inr B
                  \<and> Tensor_divergence spacedim ten shape_function q_point = Inr d
                  \<and> (\<forall>k<spacedim. d ! k = (\<Sum>j\<in>{0..<spacedim}. B ! k ! j ! j))))
       \<and> (single_nonzero_component ten_sfd = - 1 \<longrightarrow>
            Tensor_divergence spacedim ten shape_function q_point = Inl ExcNotImplemented
          \<and> Tensor_gradient spacedim ten shape_function q_point = Inl ExcNotImplemented)"
proof -
  have sym_none: "single_nonzero_component sym_sfd = - 2 \<Longrightarrow>
      SymmetricTensor_divergence spacedim sym shape_function q_point = Inr (Tensor1_zero spacedim)"
    using assms(1,2) unfolding sym_sfd_def
    by (simp add: SymmetricTensor_divergence_def AssertIndexRange_def Assert_def Let_def)
  have sym_single:
    "single_nonzero_component sym_sfd \<noteq> - 2 \<Longrightarrow> single_nonzero_component sym_sfd \<noteq> - 1 \<Longrightarrow>
      SymmetricTensor_divergence spacedim sym shape_function q_point
        = Inr ((Tensor1_zero spacedim)
                 [fst s := sym_phi_grad ! snd s, snd s := sym_phi_grad ! fst s])"
    using assms(1,2) unfolding sym_sfd_def sym_phi_grad_def s_def
    by (simp add: SymmetricTensor_divergence_def AssertIndexRange_def Assert_def Let_def)
  have sym_multi: "single_nonzero_component sym_sfd = - 1 \<Longrightarrow>
      SymmetricTensor_divergence spacedim sym shape_function q_point = Inl ExcNotImplemented"
    using assms(1,2) unfolding sym_sfd_def
    by (simp add: SymmetricTensor_divergence_def AssertIndexRange_def Assert_def Let_def)
  have ten_none: "single_nonzero_component ten_sfd = - 2 \<Longrightarrow>
      Tensor_divergence spacedim ten shape_function q_point = Inr (Tensor1_zero spacedim)
    \<and> Tensor_gradient spacedim ten shape_function q_point = Inr (Tensor3_zero spacedim)"
    using assms(3,4) unfolding ten_sfd_def
    by (simp add: Tensor_divergence_def Tensor_gradient_def
        AssertIndexRange_def Assert_def Let_def)
  have ten_single:
    "single_nonzero_component ten_sfd \<noteq> - 2 \<Longrightarrow> single_nonzero_component ten_sfd \<noteq> - 1 \<Longrightarrow>
      Tensor_divergence spacedim ten shape_function q_point
        = Inr ((Tensor1_zero spacedim) [fst t := ten_phi_grad ! snd t])
    \<and> Tensor_gradient spacedim ten shape_function q_point
        = Inr ((Tensor3_zero spacedim)
                 [fst t := (Tensor3_zero spacedim ! fst t) [snd t := ten_phi_grad]])"
    using assms(3,4) unfolding ten_sfd_def ten_phi_grad_def t_def
    by (simp add: Tensor_divergence_def Tensor_gradient_def
        AssertIndexRange_def Assert_def Let_def)
  have ten_multi: "single_nonzero_component ten_sfd = - 1 \<Longrightarrow>
      Tensor_divergence spacedim ten shape_function q_point = Inl ExcNotImplemented
    \<and> Tensor_gradient spacedim ten shape_function q_point = Inl ExcNotImplemented"
    using assms(3,4) unfolding ten_sfd_def
    by (simp add: Tensor_divergence_def Tensor_gradient_def
        AssertIndexRange_def Assert_def Let_def)
  have contraction: "\<exists>B d. Tensor_gradient spacedim ten shape_function q_point = Inr B
                  \<and> Tensor_divergence spacedim ten shape_function q_point = Inr d
                  \<and> (\<forall>k<spacedim. d ! k = (\<Sum>j\<in>{0..<spacedim}. B ! k ! j ! j))"
    if "single_nonzero_component ten_sfd \<noteq> - 1"
      and c: "single_nonzero_component_index ten_sfd < spacedim * spacedim"
  proof (cases "single_nonzero_component ten_sfd = - 2")
    case True
    with ten_none show ?thesis by simp
  next
    case False
    from c have pos: "0 < spacedim" by (cases spacedim) auto
    from c have i: "fst t < spacedim"
      unfolding t_def Tensor2_unrolled_to_component_indices_def
      by (simp add: less_mult_imp_div_less)
    from pos have j: "snd t < spacedim"
      unfolding t_def Tensor2_unrolled_to_component_indices_def by simp
    from ten_single [OF False that(1)] contract_single_entry [OF i j, of _ ten_phi_grad]
    show ?thesis by simp
  qed
  from sym_none sym_single sym_multi ten_none ten_single ten_multi contraction
  show ?thesis by blast
qed

theorem tensor_views_divergence_gradient_dispatch_witness:
  "single_nonzero_component (shape_function_data (symmetric_tensor_view 2 4 1) ! 1) = - 2
   \<and> SymmetricTensor_divergence 2 (symmetric_tensor_view 2 4 1) 1 1 = Inr [0, 0]
   \<and> single_nonzero_component (shape_function_data (tensor_view 2 5 1) ! 1) = - 2
   \<and> Tensor_divergence 2 (tensor_view 2 5 1) 1 1 = Inr [0, 0]
   \<and> Tensor_gradient 2 (tensor_view 2 5 1) 1 1 = Inr [[[0, 0], [0, 0]], [[0, 0], [0, 0]]]
   \<and> single_nonzero_component (shape_function_data (symmetric_tensor_view 2 4 1) ! 0) = 1
   \<and> SymmetricTensor_divergence 2 (symmetric_tensor_view 2 4 1) 0 1 = Inr [112, 111]
   \<and> single_nonzero_component (shape_function_data (tensor_view 2 5 1) ! 0) = 1
   \<and> single_nonzero_component_index (shape_function_data (tensor_view 2 5 1) ! 0) < 2 * 2
   \<and> Tensor_divergence 2 (tensor_view 2 5 1) 0 1 = Inr [0, 112]
   \<and> Tensor_gradient 2 (tensor_view 2 5 1) 0 1 = Inr [[[0, 0], [0, 0]], [[0, 0], [111, 112]]]
   \<and> single_nonzero_component (shape_function_data (symmetric_tensor_view 2 3 0) ! 0) = - 1
   \<and> SymmetricTensor_divergence 2 (symmetric_tensor_view 2 3 0) 0 1 = Inl ExcNotImplemented
   \<and> single_nonzero_component (shape_function_data (tensor_view 2 4 0) ! 0) = - 1
   \<and> Tensor_divergence 2 (tensor_view 2 4 0) 0 1 = Inl ExcNotImplemented
   \<and> Tensor_gradient 2 (tensor_view 2 4 0) 0 1 = Inl ExcNotImplemented"
proof -
  have indices: "SymmetricTensor2_unrolled_to_component_indices 2 2 = (0, 1)"
    "Tensor2_unrolled_to_component_indices 2 3 = (1, 1)"
    by code_simp+
  have zeros: "Tensor1_zero 2 = [0, 0]" "Tensor3_zero 2 = [[[0, 0], [0, 0]], [[0, 0], [0, 0]]]"
    by code_simp+
  note none = tensor_views_divergence_gradient_dispatch
    [where sym = "symmetric_tensor_view 2 4 1" and ten = "tensor_view 2 5 1"
      and shape_function = 1 and q_point = 1 and spacedim = 2,
      OF tensor_views_index(1) tensor_views_flags(1) tensor_views_index(2) tensor_views_flags(2),
      unfolded symmetric_tensor_view_data tensor_view_data zeros]
  note single = tensor_views_divergence_gradient_dispatch
    [where sym = "symmetric_tensor_view 2 4 1" and ten = "tensor_view 2 5 1"
      and shape_function = 0 and q_point = 1 and spacedim = 2,
      OF tensor_views_index(1) tensor_views_flags(1) tensor_views_index(2) tensor_views_flags(2),
      unfolded symmetric_tensor_view_data tensor_view_data fe_values_symmetric_tensor_view
        fe_values_tensor_view zeros]
  note multi = tensor_views_divergence_gradient_dispatch
    [where sym = "symmetric_tensor_view 2 3 0" and ten = "tensor_view 2 4 0"
      and shape_function = 0 and q_point = 1 and spacedim = 2,
      OF tensor_views_index(1) tensor_views_flags(1) tensor_views_index(2) tensor_views_flags(2),
      unfolded symmetric_tensor_view_data tensor_view_data]
  have r_none: "SymmetricTensor_divergence 2 (symmetric_tensor_view 2 4 1) 1 1 = Inr [0, 0]"
    "Tensor_divergence 2 (tensor_view 2 5 1) 1 1 = Inr [0, 0]"
    "Tensor_gradient 2 (tensor_view 2 5 1) 1 1 = Inr [[[0, 0], [0, 0]], [[0, 0], [0, 0]]]"
    using none by simp_all
  have r_single: "SymmetricTensor_divergence 2 (symmetric_tensor_view 2 4 1) 0 1 = Inr [112, 111]"
    "Tensor_divergence 2 (tensor_view 2 5 1) 0 1 = Inr [0, 112]"
    "Tensor_gradient 2 (tensor_view 2 5 1) 0 1 = Inr [[[0, 0], [0, 0]], [[0, 0], [111, 112]]]"
    using single by (simp_all add: indices upt_2)
  have r_multi: "SymmetricTensor_divergence 2 (symmetric_tensor_view 2 3 0) 0 1 = Inl ExcNotImplemented"
    "Tensor_divergence 2 (tensor_view 2 4 0) 0 1 = Inl ExcNotImplemented"
    "Tensor_gradient 2 (tensor_view 2 4 0) 0 1 = Inl ExcNotImplemented"
    using multi by simp_all
  have states:
    "single_nonzero_component (shape_function_data (symmetric_tensor_view 2 4 1) ! 1) = - 2"
    "single_nonzero_component (shape_function_data (tensor_view 2 5 1) ! 1) = - 2"
    "single_nonzero_component (shape_function_data (symmetric_tensor_view 2 4 1) ! 0) = 1"
    "single_nonzero_component (shape_function_data (tensor_view 2 5 1) ! 0) = 1"
    "single_nonzero_component_index (shape_function_data (tensor_view 2 5 1) ! 0) < 2 * 2"
    "single_nonzero_component (shape_function_data (symmetric_tensor_view 2 3 0) ! 0) = - 1"
    "single_nonzero_component (shape_function_data (tensor_view 2 4 0) ! 0) = - 1"
    unfolding symmetric_tensor_view_data tensor_view_data by simp_all
  from r_none r_single r_multi states show ?thesis by blast
qed

subsection \<open>Queries without the update flag\<close>

lemma shape_accessors_need_flag:
  fixes this :: FEValuesBase
  shows "(update_values \<notin> update_flags this \<longrightarrow>
            isl (shape_value this i j)
            \<and> isl (shape_value_component this i j c))"
    and "(update_gradients \<notin> update_flags this \<longrightarrow>
            isl (shape_grad this i j)
            \<and> isl (shape_grad_component spacedim this i j c))"
    and "(update_hessians \<notin> update_flags this \<longrightarrow>
            isl (shape_hessian this i j)
            \<and> isl (shape_hessian_component spacedim this i j c))"
    and "(update_3rd_derivatives \<notin> update_flags this \<longrightarrow>
            isl (shape_3rd_derivative this i j)
            \<and> isl (shape_3rd_derivative_component spacedim this i j c))"
  by (simp_all add: AssertIndexRange_def Assert_def
      shape_value_def shape_value_component_def shape_grad_def shape_grad_component_def
      shape_hessian_def shape_hessian_component_def shape_3rd_derivative_def
      shape_3rd_derivative_component_def)

lemma mapping_accessors_need_flag:
  fixes this :: FEValuesBase
  shows "(update_quadrature_points \<notin> update_flags this \<longrightarrow>
            isl (get_quadrature_points this)
            \<and> isl (quadrature_point this j))"
    and "(update_JxW_values \<notin> update_flags this \<longrightarrow>
            isl (get_JxW_values this)
            \<and> isl (JxW this j))"
    and "(update_jacobians \<notin> update_flags this \<longrightarrow>
            isl (get_jacobians this)
            \<and> isl (jacobian this j))"
    and "(update_jacobian_grads \<notin> update_flags this \<longrightarrow>
            isl (get_jacobian_grads this)
            \<and> isl (jacobian_grad this j))"
    and "(update_jacobian_pushed_forward_grads \<notin> update_flags this \<longrightarrow>
            isl (get_jacobian_pushed_forward_grads this)
            \<and> isl (jacobian_pushed_forward_grad this j))"
    and "(update_jacobian_2nd_derivatives \<notin> update_flags this \<longrightarrow>
            isl (get_jacobian_2nd_derivatives this)
            \<and> isl (jacobian_2nd_derivative this j))"
    and "(update_jacobian_pushed_forward_2nd_derivatives \<notin> update_flags this \<longrightarrow>
            isl (get_jacobian_pushed_forward_2nd_derivatives this)
            \<and> isl (jacobian_pushed_forward_2nd_derivative this j))"
    and "(update_jacobian_3rd_derivatives \<notin> update_flags this \<longrightarrow>
            isl (get_jacobian_3rd_derivatives this)
            \<and> isl (jacobian_3rd_derivative this j))"
    and "(update_jacobian_pushed_forward_3rd_derivatives \<notin> update_flags this \<longrightarrow>
            isl (get_jacobian_pushed_forward_3rd_derivatives this)
            \<and> isl (jacobian_pushed_forward_3rd_derivative this j))"
    and "(update_inverse_jacobians \<notin> update_flags this \<longrightarrow>
            isl (get_inverse_jacobians this)
            \<and> isl (inverse_jacobian this j))"
    and "(update_normal_vectors \<notin> update_flags this \<longrightarrow>
            isl (normal_vector this j))"
    and "(update_boundary_forms \<notin> update_flags this \<longrightarrow>
            isl (boundary_form this j))"
  by (simp_all add: AssertIndexRange_def Assert_def
      get_quadrature_points_def quadrature_point_def get_JxW_values_def JxW_def
      get_jacobians_def jacobian_def get_jacobian_grads_def jacobian_grad_def
      get_jacobian_pushed_forward_grads_def jacobian_pushed_forward_grad_def
      get_jacobian_2nd_derivatives_def jacobian_2nd_derivative_def
      get_jacobian_pushed_forward_2nd_derivatives_def
      jacobian_pushed_forward_2nd_derivative_def get_jacobian_3rd_derivatives_def
      jacobian_3rd_derivative_def get_jacobian_pushed_forward_3rd_derivatives_def
      jacobian_pushed_forward_3rd_derivative_def get_inverse_jacobians_def
      inverse_jacobian_def normal_vector_def boundary_form_def)

lemma Scalar_accessors_need_flag:
  fixes scalar :: "Scalar_ShapeFunctionData FEValuesView"
  shows "(update_values \<notin> update_flags (fe_values scalar) \<longrightarrow>
            isl (Scalar_value scalar i j))"
    and "(update_gradients \<notin> update_flags (fe_values scalar) \<longrightarrow>
            isl (Scalar_gradient spacedim scalar i j))"
    and "(update_hessians \<notin> update_flags (fe_values scalar) \<longrightarrow>
            isl (Scalar_hessian spacedim scalar i j))"
    and "(update_3rd_derivatives \<notin> update_flags (fe_values scalar) \<longrightarrow>
            isl (Scalar_third_derivative spacedim scalar i j))"
  by (simp_all add: AssertIndexRange_def Assert_def
      Scalar_value_def Scalar_gradient_def Scalar_hessian_def
      Scalar_third_derivative_def)

lemma view_accessors_need_flag:
  fixes view :: "ShapeFunctionData FEValuesView"
  shows "(update_values \<notin> update_flags (fe_values view) \<longrightarrow>
            isl (Vector_value dim' spacedim view i j)
            \<and> isl (SymmetricTensor_value spacedim view i j)
            \<and> isl (Tensor_value dim' spacedim view i j))"
    and "(update_gradients \<notin> update_flags (fe_values view) \<longrightarrow>
            isl (Vector_gradient dim' spacedim view i j)
            \<and> isl (Vector_divergence dim' view i j)
            \<and> isl (Vector_curl dim' spacedim view i j)
            \<and> isl (Vector_symmetric_gradient dim' spacedim view i j)
            \<and> isl (SymmetricTensor_divergence spacedim view i j)
            \<and> isl (Tensor_divergence spacedim view i j)
            \<and> isl (Tensor_gradient spacedim view i j))"
    and "(update_hessians \<notin> update_flags (fe_values view) \<longrightarrow>
            isl (Vector_hessian dim' spacedim view i j))"
    and "(update_3rd_derivatives \<notin> update_flags (fe_values view) \<longrightarrow>
            isl (Vector_third_derivative dim' spacedim view i j))"
  by (simp_all add: AssertIndexRange_def Assert_def
      Vector_value_def SymmetricTensor_value_def Tensor_value_def Vector_gradient_def
      Vector_divergence_def Vector_curl_def Vector_symmetric_gradient_def
      SymmetricTensor_divergence_def Tensor_divergence_def Tensor_gradient_def
      Vector_hessian_def Vector_third_derivative_def)

text \<open>
  Claim C3. Every accessor of the header fails when the update flag that owns the
  requested quantity is not in \<open>update_flags\<close>: it raises an exception (the result is
  \<open>Inl\<close>) instead of returning a value. This covers the whole-element accessors of the
  shape function data (for instance \<open>shape_hessian\<close> without \<open>update_hessians\<close>), the
  accessors of the mapping data, and the accessors of the four component views (for
  instance \<open>Scalar::hessian\<close>), whatever the indices and the shape function data are.
\<close>

theorem query_without_update_flag_fails:
  fixes this :: FEValuesBase
    and scalar :: "Scalar_ShapeFunctionData FEValuesView"
    and view :: "ShapeFunctionData FEValuesView"
  shows "(update_values \<notin> update_flags this \<longrightarrow>
            isl (shape_value this i j)
            \<and> isl (shape_value_component this i j c))
       \<and> (update_gradients \<notin> update_flags this \<longrightarrow>
            isl (shape_grad this i j)
            \<and> isl (shape_grad_component spacedim this i j c))
       \<and> (update_hessians \<notin> update_flags this \<longrightarrow>
            isl (shape_hessian this i j)
            \<and> isl (shape_hessian_component spacedim this i j c))
       \<and> (update_3rd_derivatives \<notin> update_flags this \<longrightarrow>
            isl (shape_3rd_derivative this i j)
            \<and> isl (shape_3rd_derivative_component spacedim this i j c))
       \<and> (update_quadrature_points \<notin> update_flags this \<longrightarrow>
            isl (get_quadrature_points this)
            \<and> isl (quadrature_point this j))
       \<and> (update_JxW_values \<notin> update_flags this \<longrightarrow>
            isl (get_JxW_values this)
            \<and> isl (JxW this j))
       \<and> (update_jacobians \<notin> update_flags this \<longrightarrow>
            isl (get_jacobians this)
            \<and> isl (jacobian this j))
       \<and> (update_jacobian_grads \<notin> update_flags this \<longrightarrow>
            isl (get_jacobian_grads this)
            \<and> isl (jacobian_grad this j))
       \<and> (update_jacobian_pushed_forward_grads \<notin> update_flags this \<longrightarrow>
            isl (get_jacobian_pushed_forward_grads this)
            \<and> isl (jacobian_pushed_forward_grad this j))
       \<and> (update_jacobian_2nd_derivatives \<notin> update_flags this \<longrightarrow>
            isl (get_jacobian_2nd_derivatives this)
            \<and> isl (jacobian_2nd_derivative this j))
       \<and> (update_jacobian_pushed_forward_2nd_derivatives \<notin> update_flags this \<longrightarrow>
            isl (get_jacobian_pushed_forward_2nd_derivatives this)
            \<and> isl (jacobian_pushed_forward_2nd_derivative this j))
       \<and> (update_jacobian_3rd_derivatives \<notin> update_flags this \<longrightarrow>
            isl (get_jacobian_3rd_derivatives this)
            \<and> isl (jacobian_3rd_derivative this j))
       \<and> (update_jacobian_pushed_forward_3rd_derivatives \<notin> update_flags this \<longrightarrow>
            isl (get_jacobian_pushed_forward_3rd_derivatives this)
            \<and> isl (jacobian_pushed_forward_3rd_derivative this j))
       \<and> (update_inverse_jacobians \<notin> update_flags this \<longrightarrow>
            isl (get_inverse_jacobians this)
            \<and> isl (inverse_jacobian this j))
       \<and> (update_normal_vectors \<notin> update_flags this \<longrightarrow>
            isl (normal_vector this j))
       \<and> (update_boundary_forms \<notin> update_flags this \<longrightarrow>
            isl (boundary_form this j))
       \<and> (update_values \<notin> update_flags (fe_values scalar) \<longrightarrow>
            isl (Scalar_value scalar i j))
       \<and> (update_gradients \<notin> update_flags (fe_values scalar) \<longrightarrow>
            isl (Scalar_gradient spacedim scalar i j))
       \<and> (update_hessians \<notin> update_flags (fe_values scalar) \<longrightarrow>
            isl (Scalar_hessian spacedim scalar i j))
       \<and> (update_3rd_derivatives \<notin> update_flags (fe_values scalar) \<longrightarrow>
            isl (Scalar_third_derivative spacedim scalar i j))
       \<and> (update_values \<notin> update_flags (fe_values view) \<longrightarrow>
            isl (Vector_value dim' spacedim view i j)
            \<and> isl (SymmetricTensor_value spacedim view i j)
            \<and> isl (Tensor_value dim' spacedim view i j))
       \<and> (update_gradients \<notin> update_flags (fe_values view) \<longrightarrow>
            isl (Vector_gradient dim' spacedim view i j)
            \<and> isl (Vector_divergence dim' view i j)
            \<and> isl (Vector_curl dim' spacedim view i j)
            \<and> isl (Vector_symmetric_gradient dim' spacedim view i j)
            \<and> isl (SymmetricTensor_divergence spacedim view i j)
            \<and> isl (Tensor_divergence spacedim view i j)
            \<and> isl (Tensor_gradient spacedim view i j))
       \<and> (update_hessians \<notin> update_flags (fe_values view) \<longrightarrow>
            isl (Vector_hessian dim' spacedim view i j))
       \<and> (update_3rd_derivatives \<notin> update_flags (fe_values view) \<longrightarrow>
            isl (Vector_third_derivative dim' spacedim view i j))"
  by (intro conjI shape_accessors_need_flag mapping_accessors_need_flag
      Scalar_accessors_need_flag view_accessors_need_flag)

text \<open>
  The claim at an object without any update flag, and in the scenario of the primitive
  element with values and gradients requested, where a Hessian query fails.
\<close>

theorem query_without_update_flag_fails_witness:
  "update_flags (nonprimitive_fe_values 2 2 {}) = {}
   \<and> isl (shape_value (nonprimitive_fe_values 2 2 {}) 0 1)
   \<and> isl (shape_value_component (nonprimitive_fe_values 2 2 {}) 0 1 0)
   \<and> isl (shape_grad (nonprimitive_fe_values 2 2 {}) 0 1)
   \<and> isl (shape_grad_component 2 (nonprimitive_fe_values 2 2 {}) 0 1 0)
   \<and> isl (shape_hessian (nonprimitive_fe_values 2 2 {}) 0 1)
   \<and> isl (shape_hessian_component 2 (nonprimitive_fe_values 2 2 {}) 0 1 0)
   \<and> isl (shape_3rd_derivative (nonprimitive_fe_values 2 2 {}) 0 1)
   \<and> isl (shape_3rd_derivative_component 2 (nonprimitive_fe_values 2 2 {}) 0 1 0)
   \<and> isl (get_quadrature_points (nonprimitive_fe_values 2 2 {}))
   \<and> isl (quadrature_point (nonprimitive_fe_values 2 2 {}) 1)
   \<and> isl (get_JxW_values (nonprimitive_fe_values 2 2 {}))
   \<and> isl (JxW (nonprimitive_fe_values 2 2 {}) 1)
   \<and> isl (get_jacobians (nonprimitive_fe_values 2 2 {}))
   \<and> isl (jacobian (nonprimitive_fe_values 2 2 {}) 1)
   \<and> isl (get_jacobian_grads (nonprimitive_fe_values 2 2 {}))
   \<and> isl (jacobian_grad (nonprimitive_fe_values 2 2 {}) 1)
   \<and> isl (get_jacobian_pushed_forward_grads (nonprimitive_fe_values 2 2 {}))
   \<and> isl (jacobian_pushed_forward_grad (nonprimitive_fe_values 2 2 {}) 1)
   \<and> isl (get_jacobian_2nd_derivatives (nonprimitive_fe_values 2 2 {}))
   \<and> isl (jacobian_2nd_derivative (nonprimitive_fe_values 2 2 {}) 1)
   \<and> isl (get_jacobian_pushed_forward_2nd_derivatives (nonprimitive_fe_values 2 2 {}))
   \<and> isl (jacobian_pushed_forward_2nd_derivative (nonprimitive_fe_values 2 2 {}) 1)
   \<and> isl (get_jacobian_3rd_derivatives (nonprimitive_fe_values 2 2 {}))
   \<and> isl (jacobian_3rd_derivative (nonprimitive_fe_values 2 2 {}) 1)
   \<and> isl (get_jacobian_pushed_forward_3rd_derivatives (nonprimitive_fe_values 2 2 {}))
   \<and> isl (jacobian_pushed_forward_3rd_derivative (nonprimitive_fe_values 2 2 {}) 1)
   \<and> isl (get_inverse_jacobians (nonprimitive_fe_values 2 2 {}))
   \<and> isl (inverse_jacobian (nonprimitive_fe_values 2 2 {}) 1)
   \<and> isl (normal_vector (nonprimitive_fe_values 2 2 {}) 1)
   \<and> isl (boundary_form (nonprimitive_fe_values 2 2 {}) 1)
   \<and> isl (Scalar_value (make_Scalar_view (nonprimitive_fe_values 2 2 {}) 0) 0 1)
   \<and> isl (Scalar_gradient 2 (make_Scalar_view (nonprimitive_fe_values 2 2 {}) 0) 0 1)
   \<and> isl (Scalar_hessian 2 (make_Scalar_view (nonprimitive_fe_values 2 2 {}) 0) 0 1)
   \<and> isl (Scalar_third_derivative 2 (make_Scalar_view (nonprimitive_fe_values 2 2 {}) 0) 0 1)
   \<and> isl (Vector_value 2 2 (make_Vector_view 2 (nonprimitive_fe_values 2 2 {}) 0) 0 1)
   \<and> isl (SymmetricTensor_value 2 (make_Vector_view 2 (nonprimitive_fe_values 2 2 {}) 0) 0 1)
   \<and> isl (Tensor_value 2 2 (make_Vector_view 2 (nonprimitive_fe_values 2 2 {}) 0) 0 1)
   \<and> isl (Vector_gradient 2 2 (make_Vector_view 2 (nonprimitive_fe_values 2 2 {}) 0) 0 1)
   \<and> isl (Vector_divergence 2 (make_Vector_view 2 (nonprimitive_fe_values 2 2 {}) 0) 0 1)
   \<and> isl (Vector_curl 2 2 (make_Vector_view 2 (nonprimitive_fe_values 2 2 {}) 0) 0 1)
   \<and> isl (Vector_symmetric_gradient 2 2 (make_Vector_view 2 (nonprimitive_fe_values 2 2 {}) 0) 0 1)
   \<and> isl (SymmetricTensor_divergence 2 (make_Vector_view 2 (nonprimitive_fe_values 2 2 {}) 0) 0 1)
   \<and> isl (Tensor_divergence 2 (make_Vector_view 2 (nonprimitive_fe_values 2 2 {}) 0) 0 1)
   \<and> isl (Tensor_gradient 2 (make_Vector_view 2 (nonprimitive_fe_values 2 2 {}) 0) 0 1)
   \<and> isl (Vector_hessian 2 2 (make_Vector_view 2 (nonprimitive_fe_values 2 2 {}) 0) 0 1)
   \<and> isl (Vector_third_derivative 2 2 (make_Vector_view 2 (nonprimitive_fe_values 2 2 {}) 0) 0 1)
   \<and> update_hessians \<notin> update_flags primitive_fe_values
   \<and> isl (shape_hessian primitive_fe_values 2 1)"
proof -
  have views: "fe_values (make_Scalar_view fev component) = fev"
    "fe_values (make_Vector_view spacedim fev first) = fev" for fev component spacedim first
    by (simp_all add: make_Scalar_view_def make_Vector_view_def make_view_def)
  have hessians: "update_hessians \<notin> update_flags primitive_fe_values"
    by (simp add: primitive_fe_values_def)
  have scenario: "isl (shape_hessian primitive_fe_values 2 1)"
    using query_without_update_flag_fails [where this = primitive_fe_values and i = 2 and j = 1]
      hessians
    by blast
  show ?thesis
    using query_without_update_flag_fails [where this = "nonprimitive_fe_values 2 2 {}"
        and scalar = "make_Scalar_view (nonprimitive_fe_values 2 2 {}) 0"
        and view = "make_Vector_view 2 (nonprimitive_fe_values 2 2 {}) 0"
        and i = 0 and j = 1 and c = 0 and spacedim = 2 and dim' = 2,
        unfolded views update_flags_nonprimitive]
      hessians scenario
    by simp
qed

subsection \<open>Queries without a loaded cell\<close>









subsection \<open>The curl in one dimension\<close>

lemma vector_view_1d_data:
  "shape_function_data (vector_view 1 1 0) ! 0
     = \<lparr> is_nonzero_shape_function_component = [True], row_index = [0],
         single_nonzero_component = 0, single_nonzero_component_index = 0 \<rparr>"
  by code_simp

text \<open>
  Claim C10. In one dimension (\<open>dim = 1\<close>), for a valid shape function that has at
  least one structurally nonzero component in the view, and with \<open>update_gradients\<close>
  requested, \<open>Vector::curl\<close> fails with the assertion that computing the curl in 1d is
  not a useful operation. The shape function data is as documented
  (\<open>ShapeFunctionData_invariant\<close>), so that a nonzero component means that
  \<open>single_nonzero_component\<close> is not \<open>-2\<close>.
\<close>

theorem Vector_curl_1d_fails:
  assumes "shape_function < n_dofs_per_cell (fe (fe_values this))"
    and "update_gradients \<in> update_flags (fe_values this)"
    and "ShapeFunctionData_invariant spacedim (shape_function_data this ! shape_function)"
    and "\<exists>d<spacedim. is_nonzero_shape_function_component
                         (shape_function_data this ! shape_function) ! d"
  shows "Vector_curl 1 spacedim this shape_function q_point
           = Inl (ExcMessage ''Computing the curl in 1d is not a useful operation'')"
proof -
  from assms(3,4) have "single_nonzero_component (shape_function_data this ! shape_function) \<noteq> - 2"
    by (auto simp: invariant_none_iff)
  with assms(1,2) show ?thesis
    by (simp add: Vector_curl_def AssertIndexRange_def Assert_def Let_def)
qed

theorem Vector_curl_1d_fails_witness:
  "0 < n_dofs_per_cell (fe (fe_values (vector_view 1 1 0)))
   \<and> update_gradients \<in> update_flags (fe_values (vector_view 1 1 0))
   \<and> ShapeFunctionData_invariant 1 (shape_function_data (vector_view 1 1 0) ! 0)
   \<and> is_nonzero_shape_function_component (shape_function_data (vector_view 1 1 0) ! 0) ! 0
   \<and> Vector_curl 1 1 (vector_view 1 1 0) 0 1
       = Inl (ExcMessage ''Computing the curl in 1d is not a useful operation'')"
proof -
  have index: "0 < n_dofs_per_cell (fe (fe_values (vector_view 1 1 0)))"
    by (rule vector_view_index) simp
  have inv: "ShapeFunctionData_invariant 1 (shape_function_data (vector_view 1 1 0) ! 0)"
    unfolding vector_view_1d_data by (simp add: ShapeFunctionData_invariant_def)
  have nz: "is_nonzero_shape_function_component (shape_function_data (vector_view 1 1 0) ! 0) ! 0"
    unfolding vector_view_1d_data by simp
  then have ex: "\<exists>d<1. is_nonzero_shape_function_component
                        (shape_function_data (vector_view 1 1 0) ! 0) ! d"
    by blast
  from Vector_curl_1d_fails [OF index vector_view_flags(2) inv ex, of 1]
    index vector_view_flags(2) [of 1 1 0] inv nz
  show ?thesis by blast
qed

subsection \<open>The views against \<open>shape_value_component\<close>\<close>

lemma make_view_data:
  assumes "i < n_dofs_per_cell (fe fev)"
  shows "shape_function_data (make_view n fev first) ! i
           = make_ShapeFunctionData n (fe fev)
               (shape_function_to_row_table (finite_element_output fev)) first i"
  using assms by (simp add: make_view_def)

lemma make_view_fe_values [simp]: "fe_values (make_view n fev first) = fev"
  by (simp add: make_view_def)

lemma make_ShapeFunctionData_members:
  assumes "d < n"
  shows "is_nonzero_shape_function_component (make_ShapeFunctionData n el table first i) ! d
           = get_nonzero_components el i ! (first + d)"
    and "row_index (make_ShapeFunctionData n el table first i) ! d
           = table ! (i * n_components el + (first + d))"
  using assms by (simp_all add: make_ShapeFunctionData_def Let_def)

lemma make_ShapeFunctionData_single:
  assumes "single_nonzero_component (make_ShapeFunctionData n el table first i) \<noteq> - 2"
    and "single_nonzero_component (make_ShapeFunctionData n el table first i) \<noteq> - 1"
  defines "k \<equiv> single_nonzero_component_index (make_ShapeFunctionData n el table first i)"
  shows "k < n"
    and "nat (single_nonzero_component (make_ShapeFunctionData n el table first i))
           = table ! (i * n_components el + (first + k))"
    and "\<And>d. d < n \<Longrightarrow> get_nonzero_components el i ! (first + d) \<longleftrightarrow> d = k"
proof -
  let ?nz = "map (\<lambda>d. get_nonzero_components el i ! (first + d)) [0..<n]"
  from assms(1,2) have one: "count_nonzero ?nz = 1"
    by (auto simp: make_ShapeFunctionData_def Let_def split: if_splits)
  then have k: "k = first_nonzero ?nz"
    by (simp add: k_def make_ShapeFunctionData_def Let_def)
  from one first_nonzero_less [of ?nz] have less: "k < n" and nz: "?nz ! k"
    by (simp_all add: k)
  show "k < n" by (rule less)
  from one less
  show "nat (single_nonzero_component (make_ShapeFunctionData n el table first i))
           = table ! (i * n_components el + (first + k))"
    by (simp add: make_ShapeFunctionData_def Let_def k)
  show "get_nonzero_components el i ! (first + d) \<longleftrightarrow> d = k" if "d < n" for d
    using count_nonzero_1_unique [OF one, of d] that nz less by (auto simp: k)
qed

lemma make_ShapeFunctionData_none:
  assumes "single_nonzero_component (make_ShapeFunctionData n el table first i) = - 2"
    and "d < n"
  shows "\<not> get_nonzero_components el i ! (first + d)"
proof -
  let ?nz = "map (\<lambda>d. get_nonzero_components el i ! (first + d)) [0..<n]"
  from assms(1) have "count_nonzero ?nz = 0"
    by (auto simp: make_ShapeFunctionData_def Let_def split: if_splits)
  with assms(2) show ?thesis
    by (auto simp: count_nonzero_0_iff)
qed

text \<open>
  With a cell loaded and the shape function data built by the constructor, the value of
  the scalar view is the value of its component, and entry \<open>d\<close> of the value of the
  vector view is the value of component \<open>first + d\<close>, for the components \<open>d < dim\<close>
  that the loop of \<open>Vector::value\<close> visits. For \<open>dim = spacedim\<close> these are all the
  components of the view.
\<close>

lemma Scalar_value_refines_shape_value_component:
  assumes "i < n_dofs_per_cell (fe fev)"
    and "update_values \<in> update_flags fev"
    and "is_initialized (present_cell fev)"
    and "component < n_components (fe fev)"
  shows "Scalar_value (make_Scalar_view fev component) i q
           = shape_value_component fev i q component"
  using assms
  by (simp add: Scalar_value_def shape_value_component_def make_Scalar_view_def
      make_Scalar_ShapeFunctionData_def AssertIndexRange_def Assert_def)

lemma Vector_value_refines_shape_value_component:
  assumes "i < n_dofs_per_cell (fe fev)"
    and "update_values \<in> update_flags fev"
    and "is_initialized (present_cell fev)"
    and "first + spacedim \<le> n_components (fe fev)"
    and "d < dim'" and "dim' \<le> spacedim"
  shows "\<exists>v. Vector_value dim' spacedim (make_Vector_view spacedim fev first) i q = Inr v
            \<and> length v = spacedim
            \<and> shape_value_component fev i q (first + d) = Inr (v ! d)"
proof -
  let ?table = "shape_function_to_row_table (finite_element_output fev)"
  let ?sfd = "make_ShapeFunctionData spacedim (fe fev) ?table first i"
  let ?snc = "single_nonzero_component ?sfd"
  from assms have d: "d < spacedim" by simp
  from assms have component:
    "shape_value_component fev i q (first + d)
       = (if get_nonzero_components (fe fev) i ! (first + d)
          then Inr (shape_values (finite_element_output fev)
                      (?table ! (i * n_components (fe fev) + (first + d))) q)
          else Inr 0)"
    by (simp add: shape_value_component_def AssertIndexRange_def Assert_def)
  consider (none) "?snc = - 2" | (multi) "?snc = - 1" | (single) "?snc \<noteq> - 2" "?snc \<noteq> - 1"
    by blast
  then show ?thesis
  proof cases
    case none
    with assms(1,2) d make_ShapeFunctionData_none [OF none d] show ?thesis
      by (simp add: component Vector_value_def make_Vector_view_def make_view_data
          AssertIndexRange_def Assert_def)
  next
    case multi
    with assms(1,2,5) d show ?thesis
      by (simp add: component Vector_value_def make_Vector_view_def make_view_data
          AssertIndexRange_def Assert_def Let_def fold_assign_length fold_assign_nth
          make_ShapeFunctionData_members)
  next
    case single
    from make_ShapeFunctionData_single [OF single] d
    have "single_nonzero_component_index ?sfd < spacedim"
      and "nat ?snc = ?table ! (i * n_components (fe fev)
                                  + (first + single_nonzero_component_index ?sfd))"
      and "get_nonzero_components (fe fev) i ! (first + d)
             \<longleftrightarrow> d = single_nonzero_component_index ?sfd"
      by blast+
    with single assms(1,2) d show ?thesis
      by (auto simp: component Vector_value_def make_Vector_view_def make_view_data
          AssertIndexRange_def Assert_def Let_def nth_list_update)
  qed
qed

text \<open>
  The same for the tensor view, whose loop visits the components \<open>d < dim * dim\<close> of
  the \<open>spacedim * spacedim\<close> components of the view, and for the symmetric tensor
  view, whose loop visits all components of the view. Component \<open>d\<close> of the view is
  the entry of the value at \<open>unrolled_to_component_indices(d)\<close>.
\<close>

lemma Tensor2_set_length:
  "length (Tensor2_set t ij x) = length t"
  by (simp add: Tensor2_set_def)

lemma Tensor2_set_row_length:
  "r < length t \<Longrightarrow> length (Tensor2_set t ij x ! r) = length (t ! r)"
  by (cases "r = fst ij") (simp_all add: Tensor2_set_def)

lemma Tensor2_set_nth:
  assumes "a < length t" and "b < length (t ! a)"
  shows "Tensor2_set t (a', b') x ! a ! b = (if a = a' \<and> b = b' then x else t ! a ! b)"
  using assms by (cases "a = a'") (simp_all add: Tensor2_set_def nth_list_update)

lemma fold_Tensor2_set_shape:
  "length (fold (\<lambda>d rv. if P d then Tensor2_set rv (d div n, d mod n) (f d) else rv) ds z)
     = length z
   \<and> (\<forall>r<length z. length (fold (\<lambda>d rv. if P d then Tensor2_set rv (d div n, d mod n) (f d)
                                         else rv) ds z ! r) = length (z ! r))"
  by (induction ds arbitrary: z) (auto simp: Tensor2_set_length Tensor2_set_row_length)

lemma div_mod_eq_iff:
  fixes k m n :: nat
  shows "k div n = m div n \<and> k mod n = m mod n \<longleftrightarrow> k = m"
  by (metis div_mult_mod_eq)

lemma fold_Tensor2_set_nth:
  assumes "length z = n" and "\<forall>r<n. length (z ! r) = n" and "k < n * n"
  shows "fold (\<lambda>d rv. if P d then Tensor2_set rv (d div n, d mod n) (f d) else rv) [0..<m] z
           ! (k div n) ! (k mod n)
         = (if k < m \<and> P k then f k else z ! (k div n) ! (k mod n))"
proof (induction m)
  case 0
  then show ?case by simp
next
  case (Suc m)
  let ?rv = "fold (\<lambda>d rv. if P d then Tensor2_set rv (d div n, d mod n) (f d) else rv) [0..<m] z"
  from assms(3) have n: "0 < n" by (cases n) auto
  from assms(3) have kdiv: "k div n < n" by (simp add: less_mult_imp_div_less)
  from n have kmod: "k mod n < n" by simp
  from fold_Tensor2_set_shape [of P n f "[0..<m]" z] assms(1,2) kdiv
  have shape: "length ?rv = n" "length (?rv ! (k div n)) = n"
    by auto
  show ?case
  proof (cases "P m")
    case False
    with Suc show ?thesis by (auto simp: less_Suc_eq)
  next
    case True
    have "Tensor2_set ?rv (m div n, m mod n) (f m) ! (k div n) ! (k mod n)
            = (if k = m then f m else ?rv ! (k div n) ! (k mod n))"
      using shape kdiv kmod div_mod_eq_iff [of k n m]
      by (simp add: Tensor2_set_nth)
    with True Suc show ?thesis by (auto simp: less_Suc_eq)
  qed
qed

lemma Tensor_value_refines_shape_value_component:
  assumes "i < n_dofs_per_cell (fe fev)"
    and "update_values \<in> update_flags fev"
    and "is_initialized (present_cell fev)"
    and "first + spacedim * spacedim \<le> n_components (fe fev)"
    and "d < dim' * dim'" and "dim' \<le> spacedim"
  shows "\<exists>v. Tensor_value dim' spacedim (make_Tensor_view spacedim fev first) i q = Inr v
            \<and> shape_value_component fev i q (first + d)
                = Inr (v ! (d div spacedim) ! (d mod spacedim))"
proof -
  let ?n = "spacedim * spacedim"
  let ?table = "shape_function_to_row_table (finite_element_output fev)"
  let ?sfd = "make_ShapeFunctionData ?n (fe fev) ?table first i"
  let ?snc = "single_nonzero_component ?sfd"
  from assms(5,6) have "dim' * dim' \<le> ?n" by (simp add: mult_le_mono)
  with assms(5) have d: "d < ?n" by simp
  then have pos: "0 < spacedim" by (cases spacedim) auto
  from d have ddiv: "d div spacedim < spacedim" by (simp add: less_mult_imp_div_less)
  from pos have dmod: "d mod spacedim < spacedim" by simp
  from assms d have component:
    "shape_value_component fev i q (first + d)
       = (if get_nonzero_components (fe fev) i ! (first + d)
          then Inr (shape_values (finite_element_output fev)
                      (?table ! (i * n_components (fe fev) + (first + d))) q)
          else Inr 0)"
    by (simp add: shape_value_component_def AssertIndexRange_def Assert_def)
  consider (none) "?snc = - 2" | (multi) "?snc = - 1" | (single) "?snc \<noteq> - 2" "?snc \<noteq> - 1"
    by blast
  then show ?thesis
  proof cases
    case none
    with assms(1,2) ddiv dmod make_ShapeFunctionData_none [OF none d] show ?thesis
      by (simp add: component Tensor_value_def make_Tensor_view_def make_view_data
          AssertIndexRange_def Assert_def)
  next
    case multi
    have loop: "fold (\<lambda>e rv. if is_nonzero_shape_function_component ?sfd ! e
                 then Tensor2_set rv (e div spacedim, e mod spacedim)
                        (shape_values (finite_element_output fev) (row_index ?sfd ! e) q)
                 else rv) [0..<dim' * dim'] (Tensor2_zero spacedim)
            ! (d div spacedim) ! (d mod spacedim)
          = (if is_nonzero_shape_function_component ?sfd ! d
             then shape_values (finite_element_output fev) (row_index ?sfd ! d) q else 0)"
      using fold_Tensor2_set_nth [of "Tensor2_zero spacedim" spacedim d _ _ "dim' * dim'"]
        d ddiv dmod assms(5)
      by simp
    from multi assms(1,2) d show ?thesis
      by (simp add: component Tensor_value_def make_Tensor_view_def make_view_data
          AssertIndexRange_def Assert_def Let_def Tensor2_unrolled_to_component_indices_def
          loop make_ShapeFunctionData_members cong: if_cong)
  next
    case single
    let ?k = "single_nonzero_component_index ?sfd"
    from make_ShapeFunctionData_single [OF single] d
    have k: "?k < ?n"
      and row: "nat ?snc = ?table ! (i * n_components (fe fev) + (first + ?k))"
      and nz: "get_nonzero_components (fe fev) i ! (first + d) \<longleftrightarrow> d = ?k"
      by blast+
    from k have kdiv: "?k div spacedim < spacedim" by (simp add: less_mult_imp_div_less)
    have "Tensor2_set (Tensor2_zero spacedim) (?k div spacedim, ?k mod spacedim) x
            ! (d div spacedim) ! (d mod spacedim) = (if d = ?k then x else 0)" for x
      using ddiv dmod kdiv div_mod_eq_iff [of d spacedim ?k]
      by (simp add: Tensor2_set_nth)
    with single assms(1,2) row nz show ?thesis
      by (simp add: component Tensor_value_def make_Tensor_view_def make_view_data
          AssertIndexRange_def Assert_def Let_def Tensor2_unrolled_to_component_indices_def)
  qed
qed

lemma unrolled_roundtrip_list:
  "list_all (\<lambda>d. SymmetricTensor2_component_to_unrolled_index 1
                     (SymmetricTensor2_unrolled_to_component_indices 1 d) = d) [0..<1]"
  "list_all (\<lambda>d. SymmetricTensor2_component_to_unrolled_index 2
                     (SymmetricTensor2_unrolled_to_component_indices 2 d) = d) [0..<3]"
  "list_all (\<lambda>d. SymmetricTensor2_component_to_unrolled_index 3
                     (SymmetricTensor2_unrolled_to_component_indices 3 d) = d) [0..<6]"
  by code_simp+

lemma unrolled_roundtrip_1:
  "d < SymmetricTensor2_n_independent_components (Suc 0) \<Longrightarrow>
   SymmetricTensor2_component_to_unrolled_index (Suc 0)
     (SymmetricTensor2_unrolled_to_component_indices (Suc 0) d) = d"
  using unrolled_roundtrip_list(1)
  by (simp add: SymmetricTensor2_n_independent_components_def)

lemma unrolled_roundtrip_2:
  "d < SymmetricTensor2_n_independent_components 2 \<Longrightarrow>
   SymmetricTensor2_component_to_unrolled_index 2
     (SymmetricTensor2_unrolled_to_component_indices 2 d) = d"
  using unrolled_roundtrip_list(2)
  by (simp add: list_all_iff SymmetricTensor2_n_independent_components_def)

lemma unrolled_roundtrip_3:
  "d < SymmetricTensor2_n_independent_components 3 \<Longrightarrow>
   SymmetricTensor2_component_to_unrolled_index 3
     (SymmetricTensor2_unrolled_to_component_indices 3 d) = d"
  using unrolled_roundtrip_list(3)
  by (simp add: list_all_iff SymmetricTensor2_n_independent_components_def)

lemma unrolled_roundtrip:
  assumes "n \<in> {1, 2, 3}" and "d < SymmetricTensor2_n_independent_components n"
  shows "SymmetricTensor2_component_to_unrolled_index n
           (SymmetricTensor2_unrolled_to_component_indices n d) = d"
  using assms by (auto intro: unrolled_roundtrip_1 unrolled_roundtrip_2 unrolled_roundtrip_3)

lemma SymmetricTensor2_zero_length [simp]:
  "length (SymmetricTensor2_zero n) = SymmetricTensor2_n_independent_components n"
  by (simp add: SymmetricTensor2_zero_def)

lemma SymmetricTensor2_zero_nth [simp]:
  "k < SymmetricTensor2_n_independent_components n \<Longrightarrow> SymmetricTensor2_zero n ! k = 0"
  by (simp add: SymmetricTensor2_zero_def)

lemma fold_SymmetricTensor2_set:
  assumes "n \<in> {1, 2, 3}"
  shows "fold (\<lambda>d rv. if P d
                 then SymmetricTensor2_set n rv (SymmetricTensor2_unrolled_to_component_indices n d)
                        (f d)
                 else rv) [0..<SymmetricTensor2_n_independent_components n] z
         = fold (\<lambda>d rv. if P d then rv [d := f d] else rv)
             [0..<SymmetricTensor2_n_independent_components n] z"
  by (rule fold_cong) (auto simp: SymmetricTensor2_set_def unrolled_roundtrip [OF assms])

lemma SymmetricTensor_value_refines_shape_value_component:
  assumes "i < n_dofs_per_cell (fe fev)"
    and "update_values \<in> update_flags fev"
    and "is_initialized (present_cell fev)"
    and "first + SymmetricTensor2_n_independent_components spacedim \<le> n_components (fe fev)"
    and "d < SymmetricTensor2_n_independent_components spacedim"
    and "spacedim \<in> {1, 2, 3}"
  shows "\<exists>v. SymmetricTensor_value spacedim (make_SymmetricTensor_view spacedim fev first) i q
              = Inr v
            \<and> shape_value_component fev i q (first + d)
                = Inr (SymmetricTensor2_at spacedim v
                         (SymmetricTensor2_unrolled_to_component_indices spacedim d))"
proof -
  let ?n = "SymmetricTensor2_n_independent_components spacedim"
  let ?table = "shape_function_to_row_table (finite_element_output fev)"
  let ?sfd = "make_ShapeFunctionData ?n (fe fev) ?table first i"
  let ?snc = "single_nonzero_component ?sfd"
  note d = assms(5)
  note roundtrip = unrolled_roundtrip [OF assms(6)]
  from assms d have component:
    "shape_value_component fev i q (first + d)
       = (if get_nonzero_components (fe fev) i ! (first + d)
          then Inr (shape_values (finite_element_output fev)
                      (?table ! (i * n_components (fe fev) + (first + d))) q)
          else Inr 0)"
    by (simp add: shape_value_component_def AssertIndexRange_def Assert_def)
  consider (none) "?snc = - 2" | (multi) "?snc = - 1" | (single) "?snc \<noteq> - 2" "?snc \<noteq> - 1"
    by blast
  then show ?thesis
  proof cases
    case none
    with assms(1,2) d make_ShapeFunctionData_none [OF none d] show ?thesis
      by (simp add: component SymmetricTensor_value_def make_SymmetricTensor_view_def
          make_view_data AssertIndexRange_def Assert_def SymmetricTensor2_at_def roundtrip)
  next
    case multi
    with assms(1,2) d show ?thesis
      by (simp add: component SymmetricTensor_value_def make_SymmetricTensor_view_def
          make_view_data AssertIndexRange_def Assert_def Let_def SymmetricTensor2_at_def
          roundtrip fold_SymmetricTensor2_set [OF assms(6)] fold_assign_nth
          make_ShapeFunctionData_members)
  next
    case single
    let ?k = "single_nonzero_component_index ?sfd"
    from make_ShapeFunctionData_single [OF single] d
    have k: "?k < ?n"
      and row: "nat ?snc = ?table ! (i * n_components (fe fev) + (first + ?k))"
      and nz: "get_nonzero_components (fe fev) i ! (first + d) \<longleftrightarrow> d = ?k"
      by blast+
    with single assms(1,2) d show ?thesis
      by (simp add: component SymmetricTensor_value_def make_SymmetricTensor_view_def
          make_view_data AssertIndexRange_def Assert_def Let_def SymmetricTensor2_at_def
          SymmetricTensor2_set_def roundtrip nth_list_update)
  qed
qed

text \<open>
  Claim C5 says that, for every kind of view, the value of the view restricted to a
  component \<open>d\<close> of its block is \<open>shape_value_component(i, q, first_component + d)\<close>.
  The block of the vector view has \<open>spacedim\<close> components and the block of the tensor
  view \<open>spacedim * spacedim\<close>, but the loops of \<open>Vector::value\<close> and \<open>Tensor::value\<close>
  run over \<open>dim\<close> and \<open>dim * dim\<close> components. In codimension one (\<open>dim = 2\<close>,
  \<open>spacedim = 3\<close>), for the shape function of the example that is nonzero in the first
  and in the last component of the block, the value of the view has zero in the last
  component where \<open>shape_value_component\<close> gives the cache entry 11; with the loop over
  all three components the vector view gives that entry.
\<close>

theorem view_value_codimension_one_misses_component:
  "is_nonzero_shape_function_component (shape_function_data (vector_view 3 3 0) ! 0)
     = [True, False, True]
   \<and> single_nonzero_component (shape_function_data (vector_view 3 3 0) ! 0) = - 1
   \<and> Vector_value 2 3 (vector_view 3 3 0) 0 1 = Inr [1, 0, 0]
   \<and> shape_value_component (fe_values (vector_view 3 3 0)) 0 1 2 = Inr 11
   \<and> Vector_value 3 3 (vector_view 3 3 0) 0 1 = Inr [1, 0, 11]
   \<and> Tensor_value 2 3 (tensor_view 3 9 0) 0 1 = Inr [[1, 0, 0], [0, 0, 0], [0, 0, 0]]
   \<and> shape_value_component (fe_values (tensor_view 3 9 0)) 0 1 8 = Inr 11"
  by code_simp

end
